theory Spec2Isabelle
  imports Complex_Main "HOL-Library.Multiset" "HOL-Library.Product_Lexorder"
begin

section \<open>Sentinel-2 scene selection, download and index scripts\<close>

text \<open>
  The development follows the Python scripts of the repository:
  \<^item> \<^verbatim>\<open>s2_stac_pick_cloudfree.py\<close>: the selector \<^verbatim>\<open>pick_topk_items\<close>, its sort key
    and the asset resolvers;
  \<^item> \<^verbatim>\<open>s2_s3_download_rgb.py\<close> and \<^verbatim>\<open>s2_download_top3_and_compare.py\<close>: the
    download step \<^verbatim>\<open>ensure_download\<close> and the loop that calls it;
  \<^item> \<^verbatim>\<open>s2_make_indices.py\<close>: \<^verbatim>\<open>safe_index\<close>, the scene-classification mask and
    the per-candidate body of \<^verbatim>\<open>main\<close>;
  \<^item> \<^verbatim>\<open>s2_make_compare_png.py\<close>, \<^verbatim>\<open>s2_download_top3_and_compare.py\<close> and
    \<^verbatim>\<open>s2_make_rgb.py\<close>: the three percentile stretches.

  Python's exceptions are values of \<open>py_error\<close>. A function that can raise returns
  \<open>py_error + 'a\<close>, with \<open>Inl\<close> for the exception; a function of the download stage,
  which acts on the disk and the network, returns the exception, if any, together with
  the state it leaves.
\<close>

datatype py_error =
  KeyError | ValueError | IndexError | RuntimeError | FileNotFoundError | ClientError
  | OverflowError

subsection \<open>The selector: configuration and escalation plan\<close>

text \<open>
  \<^verbatim>\<open>PickConfig\<close> is a dataclass; \<^verbatim>\<open>window_days\<close> is a Python int, \<^verbatim>\<open>cloud_lt\<close> a float
  (modelled as a real: the plan only compares it with constants).
\<close>

record PickConfig =
  bbox :: "real list"
  collection :: string
  window_days :: int
  cloud_lt :: real
  max_items :: int
  prefer_same_orbit :: bool

text \<open>Lines 106 to 110 of \<^verbatim>\<open>pick_topk_items\<close>: the three tiers, in the order they are tried.\<close>

definition plan :: "PickConfig \<Rightarrow> (int \<times> real) list" where
  "plan cfg =
     [ (window_days cfg, cloud_lt cfg),
       (max (window_days cfg) 5, max (cloud_lt cfg) 40),
       (max (window_days cfg) 10, 100) ]"

subsection \<open>Catalog items and the sort key\<close>

text \<open>
  The raw value of \<^verbatim>\<open>properties["eo:cloud_cover"]\<close>: absent (or null), a finite number, or a
  value on which \<^verbatim>\<open>float(v)\<close> raises. (A value that \<^verbatim>\<open>float\<close> maps to NaN or to an
  infinity is outside the model; standard JSON has none.)
\<close>

datatype cloud_prop = CloudAbsent | CloudNum real | CloudUnparsable

text \<open>
  The raw value of \<^verbatim>\<open>properties["datetime"]\<close> as \<^verbatim>\<open>_to_dt_utc\<close> sees it: the key is missing
  (\<^verbatim>\<open>KeyError\<close>), the value is not an ISO-8601 string (\<^verbatim>\<open>datetime.fromisoformat\<close>
  raises \<^verbatim>\<open>ValueError\<close>), or it is a timestamp, kept as microseconds since the epoch in UTC.
\<close>

datatype dt_prop = DtMissing | DtMalformed | DtUtc int

text \<open>
  A candidate is the dictionary stored in \<^verbatim>\<open>candidates_topk\<close>: the four properties that
  \<^verbatim>\<open>pick_topk_items\<close> copies from an item. A catalog item is a candidate extended with its
  assets, so that the sort key reads both.
\<close>

record asset =
  href :: string
  media_type :: "string option"

record candidate =
  item_id :: string
  datetime_prop :: dt_prop
  cloud_cover :: cloud_prop
  proj_epsg :: "int option"

record item = candidate +
  assets :: "string \<rightharpoonup> asset"

text \<open>
  The float returned by \<^verbatim>\<open>_safe_get_cloud\<close>: a finite value or \<^verbatim>\<open>float("inf")\<close>, ordered as
  Python orders floats.
\<close>

datatype cloud = Cloud real | CloudInf

instantiation cloud :: linorder
begin

fun less_eq_cloud :: "cloud \<Rightarrow> cloud \<Rightarrow> bool" where
  "less_eq_cloud (Cloud a) (Cloud b) = (a \<le> b)"
| "less_eq_cloud (Cloud a) CloudInf = True"
| "less_eq_cloud CloudInf (Cloud b) = False"
| "less_eq_cloud CloudInf CloudInf = True"

fun less_cloud :: "cloud \<Rightarrow> cloud \<Rightarrow> bool" where
  "less_cloud (Cloud a) (Cloud b) = (a < b)"
| "less_cloud (Cloud a) CloudInf = True"
| "less_cloud CloudInf (Cloud b) = False"
| "less_cloud CloudInf CloudInf = False"

instance
proof
  fix x y z :: cloud
  show "(x < y) = (x \<le> y \<and> \<not> y \<le> x)"
    by (cases x; cases y) auto
  show "x \<le> x"
    by (cases x) auto
  show "x \<le> y \<Longrightarrow> y \<le> z \<Longrightarrow> x \<le> z"
    by (cases x; cases y; cases z) auto
  show "x \<le> y \<Longrightarrow> y \<le> x \<Longrightarrow> x = y"
    by (cases x; cases y) auto
  show "x \<le> y \<or> y \<le> x"
    by (cases x; cases y) auto
qed

end

definition safe_get_cloud :: "'a candidate_scheme \<Rightarrow> cloud" where
  "safe_get_cloud it =
     (case cloud_cover it of
        CloudAbsent \<Rightarrow> CloudInf
      | CloudNum v \<Rightarrow> Cloud v
      | CloudUnparsable \<Rightarrow> CloudInf)"

definition to_dt_utc :: "dt_prop \<Rightarrow> py_error + int" where
  "to_dt_utc s =
     (case s of DtMissing \<Rightarrow> Inl KeyError | DtMalformed \<Rightarrow> Inl ValueError | DtUtc t \<Rightarrow> Inr t)"

text \<open>
  The key of \<^verbatim>\<open>_score_item\<close>: cloud cover, the distance to the target in hours, the
  timestamp. Python compares the tuples lexicographically. The hours are
  \<^verbatim>\<open>abs((dt - target_dt).total_seconds()) / 3600.0\<close>, here the exact quotient of the
  microseconds (the rounding of the float division is not modelled).
\<close>

type_synonym score = "cloud \<times> real \<times> int"

definition score_item :: "int \<Rightarrow> 'a candidate_scheme \<Rightarrow> py_error + score" where
  "score_item target_dt it =
     (case to_dt_utc (datetime_prop it) of
        Inl e \<Rightarrow> Inl e
      | Inr dt \<Rightarrow>
          Inr (safe_get_cloud it, real_of_int \<bar>dt - target_dt\<bar> / 1000000 / 3600, dt))"

text \<open>
  \<^verbatim>\<open>sorted(items, key=...)\<close> first computes the key of every item, in order (an exception
  of a key leaves \<^verbatim>\<open>sorted\<close>), then sorts stably by the keys.
\<close>

fun decorate :: "int \<Rightarrow> 'a candidate_scheme list \<Rightarrow> py_error + (score \<times> 'a candidate_scheme) list" where
  "decorate target_dt [] = Inr []"
| "decorate target_dt (it # its) =
     (case score_item target_dt it of
        Inl e \<Rightarrow> Inl e
      | Inr k \<Rightarrow>
          (case decorate target_dt its of
             Inl e \<Rightarrow> Inl e
           | Inr ps \<Rightarrow> Inr ((k, it) # ps)))"

definition items_sorted :: "int \<Rightarrow> 'a candidate_scheme list \<Rightarrow> py_error + 'a candidate_scheme list" where
  "items_sorted target_dt items =
     (case decorate target_dt items of
        Inl e \<Rightarrow> Inl e
      | Inr ps \<Rightarrow> Inr (map snd (sort_key fst ps)))"

text \<open>The Python slice \<^verbatim>\<open>xs[:k]\<close>: a negative \<^verbatim>\<open>k\<close> counts from the end.\<close>

definition slice_to :: "int \<Rightarrow> 'a list \<Rightarrow> 'a list" where
  "slice_to k xs =
     (if 0 \<le> k then take (nat k) xs else take (length xs - nat (- k)) xs)"

subsection \<open>Asset resolvers\<close>

record asset_ref =
  ref_key :: string
  ref_href :: string
  ref_type :: "string option"

text \<open>The local function \<^verbatim>\<open>get\<close> of the resolvers; an empty \<^verbatim>\<open>href\<close> is falsy.\<close>

definition get_asset :: "(string \<rightharpoonup> asset) \<Rightarrow> string \<Rightarrow> asset_ref option" where
  "get_asset as k =
     (case as k of
        None \<Rightarrow> None
      | Some a \<Rightarrow>
          if href a \<noteq> [] then Some \<lparr>ref_key = k, ref_href = href a, ref_type = media_type a\<rparr>
          else None)"

definition pick_s2_tci_asset :: "item \<Rightarrow> asset_ref option" where
  "pick_s2_tci_asset it = get_asset (assets it) ''TCI_10m''"

text \<open>
  A dictionary from band names to references that may be \<^verbatim>\<open>None\<close> is the list of its
  keys with their values: it is empty, and falsy, exactly when it has no key. The
  consumers read it with \<^verbatim>\<open>.get\<close> and test the value's truth, so for a lookup a
  missing key and a \<^verbatim>\<open>None\<close> value behave alike.
\<close>

type_synonym 'v dict = "(string \<times> 'v option) list"

definition dict_get :: "'v dict \<Rightarrow> string \<Rightarrow> 'v option" where
  "dict_get d k = (case map_of d k of None \<Rightarrow> None | Some v \<Rightarrow> v)"

definition pick_s2_rgb_bands :: "item \<Rightarrow> asset_ref dict option" where
  "pick_s2_rgb_bands it =
     (let out = [(''B02'', get_asset (assets it) ''B02_10m''),
                 (''B03'', get_asset (assets it) ''B03_10m''),
                 (''B04'', get_asset (assets it) ''B04_10m'')]
      in if \<not> (dict_get out ''B02'' \<noteq> None \<and> dict_get out ''B03'' \<noteq> None
               \<and> dict_get out ''B04'' \<noteq> None) then None
         else Some out)"

definition pick_s2_index_assets :: "item \<Rightarrow> asset_ref dict option" where
  "pick_s2_index_assets it =
     (let out = [(''B08'', get_asset (assets it) ''B08_10m''),
                 (''B11'', get_asset (assets it) ''B11_20m''),
                 (''SCL'', get_asset (assets it) ''SCL_20m'')]
      in if dict_get out ''B08'' = None then None else Some out)"

subsection \<open>The selector\<close>

text \<open>
  An entry of \<^verbatim>\<open>candidates_topk_rgb_assets\<close>. Read back from the manifest, the \<^verbatim>\<open>id\<close>
  may be missing; the selector always writes it.
\<close>

record asset_bundle =
  bundle_id :: "string option"
  tci :: "asset_ref option"
  bands :: "asset_ref dict option"
  index_assets :: "asset_ref dict option"

text \<open>
  The catalog client is an external service: a function from the query to the items it
  yields, in the order it yields them. The range \<^verbatim>\<open>start/end\<close> of the query is kept as
  the two day numbers (days since the epoch) that the format strings
  \<^verbatim>\<open>%Y-%m-%dT00:00:00Z\<close> and \<^verbatim>\<open>%Y-%m-%dT23:59:59Z\<close> print.
\<close>

record query =
  q_collections :: "string list"
  q_bbox :: "real list"
  q_datetime :: "int \<times> int"
  q_cloud_lt :: real
  q_limit :: nat

type_synonym client = "query \<Rightarrow> item list"

record search_used =
  su_datetime :: "int \<times> int"
  su_cloud_lt :: real
  su_window_days :: int

text \<open>
  The reason of a \<^verbatim>\<open>no_items\<close> result: the f-string
  \<^verbatim>\<open>No items in +-{window_days} days with eo:cloud_cover < {cloud_lt}\<close>, kept as its two
  values, or the constant \<^verbatim>\<open>No items found\<close>.
\<close>

datatype reason = No_items_in int real | No_items_found

datatype result =
    Ok_result int search_used "candidate list" "asset_bundle list"
  | No_items int reason

definition day_us :: int where
  "day_us = 86400 * 1000000"

text \<open>
  \<^verbatim>\<open>target_dt - timedelta(days=window_days)\<close> and \<^verbatim>\<open>target_dt + timedelta(...)\<close>, then
  the two dates. A \<^verbatim>\<open>timedelta\<close> holds at most 999999999 days and a \<^verbatim>\<open>datetime\<close> lies
  in the years 1 to 9999: outside either, Python raises \<^verbatim>\<open>OverflowError\<close>.
\<close>

definition min_us :: int where
  "min_us = - 719162 * day_us"

definition max_us :: int where
  "max_us = 2932897 * day_us - 1"

definition datetime_range :: "int \<Rightarrow> int \<Rightarrow> py_error + int \<times> int" where
  "datetime_range target_dt wd =
     (if wd < - 999999999 \<or> 999999999 < wd then Inl OverflowError
      else
        (let start = target_dt - wd * day_us;
             end_dt = target_dt + wd * day_us
         in if start < min_us \<or> max_us < start then Inl OverflowError
            else if end_dt < min_us \<or> max_us < end_dt then Inl OverflowError
            else Inr (start div day_us, end_dt div day_us)))"

text \<open>
  The loop that fills \<^verbatim>\<open>items\<close>: append, then stop once \<^verbatim>\<open>len(items) >= cfg.max_items\<close>.
\<close>

fun collect :: "int \<Rightarrow> item list \<Rightarrow> item list \<Rightarrow> item list" where
  "collect m items [] = items"
| "collect m items (it # rest) =
     (let items' = items @ [it]
      in if m \<le> int (length items') then items' else collect m items' rest)"

definition summary :: "item \<Rightarrow> candidate" where
  "summary it =
     \<lparr>item_id = item_id it, datetime_prop = datetime_prop it,
      cloud_cover = cloud_cover it, proj_epsg = proj_epsg it\<rparr>"

definition rgb_assets :: "item \<Rightarrow> asset_bundle" where
  "rgb_assets it =
     \<lparr>bundle_id = Some (item_id it), tci = pick_s2_tci_asset it,
      bands = pick_s2_rgb_bands it, index_assets = pick_s2_index_assets it\<rparr>"

text \<open>The arguments of \<^verbatim>\<open>client.search\<close> for the tier \<^verbatim>\<open>(window_days, cloud_lt)\<close>.\<close>

definition search_query :: "PickConfig \<Rightarrow> int \<times> int \<Rightarrow> real \<Rightarrow> query" where
  "search_query cfg rng clt =
     \<lparr>q_collections = [collection cfg], q_bbox = bbox cfg,
      q_datetime = rng, q_cloud_lt = clt, q_limit = 100\<rparr>"

text \<open>
  The loop over the plan, with \<^verbatim>\<open>last_reason\<close> as its state. Each tier first computes its
  date range, then searches. The first tier with items returns; the end of the plan
  returns \<^verbatim>\<open>no_items\<close>. The parameter \<^verbatim>\<open>k\<close> is only used in the two slices
  \<^verbatim>\<open>items_sorted[:k]\<close>.
\<close>

fun tiers :: "client \<Rightarrow> PickConfig \<Rightarrow> int \<Rightarrow> int \<Rightarrow> reason option \<Rightarrow> (int \<times> real) list
    \<Rightarrow> py_error + result" where
  "tiers cl cfg target_dt k last_reason [] =
     Inr (No_items target_dt (case last_reason of None \<Rightarrow> No_items_found | Some r \<Rightarrow> r))"
| "tiers cl cfg target_dt k last_reason ((wd, clt) # rest) =
     (case datetime_range target_dt wd of
        Inl e \<Rightarrow> Inl e
      | Inr rng \<Rightarrow>
          (let items = collect (max_items cfg) [] (cl (search_query cfg rng clt))
           in if items = [] then tiers cl cfg target_dt k (Some (No_items_in wd clt)) rest
              else
                (case items_sorted target_dt items of
                   Inl e \<Rightarrow> Inl e
                 | Inr sorted_its \<Rightarrow>
                     Inr (Ok_result target_dt
                            \<lparr>su_datetime = rng, su_cloud_lt = clt, su_window_days = wd\<rparr>
                            (map summary (slice_to k sorted_its))
                            (map rgb_assets (slice_to k sorted_its))))))"

definition pick_topk_items :: "client \<Rightarrow> int \<Rightarrow> PickConfig \<Rightarrow> int \<Rightarrow> py_error + result" where
  "pick_topk_items cl target_dt cfg k = tiers cl cfg target_dt k None (plan cfg)"

text \<open>
  The comparison of two keys of the code: both are defined and the first is at most the
  second, in Python's order on the tuples. It is what \<^verbatim>\<open>sorted\<close> establishes.
\<close>

definition score_le :: "int \<Rightarrow> 'a candidate_scheme \<Rightarrow> 'a candidate_scheme \<Rightarrow> bool" where
  "score_le target_dt a b =
     (case score_item target_dt a of
        Inl e \<Rightarrow> False
      | Inr ka \<Rightarrow> (case score_item target_dt b of Inl e \<Rightarrow> False | Inr kb \<Rightarrow> ka \<le> kb))"

text \<open>
  The order of the specification, in its own words and on the properties of the
  candidates: cloud cover ascending, an absent or unparsable cloud cover being the worst
  value and sorting last; then the absolute distance of the timestamp to the target, in
  hours, ascending; then the timestamp ascending.
\<close>

definition cloud_before :: "cloud_prop \<Rightarrow> cloud_prop \<Rightarrow> bool" where
  "cloud_before a b =
     (case a of
        CloudNum x \<Rightarrow> (case b of CloudNum y \<Rightarrow> x < y | CloudAbsent \<Rightarrow> True | CloudUnparsable \<Rightarrow> True)
      | CloudAbsent \<Rightarrow> False
      | CloudUnparsable \<Rightarrow> False)"

definition cloud_tied :: "cloud_prop \<Rightarrow> cloud_prop \<Rightarrow> bool" where
  "cloud_tied a b =
     (case a of
        CloudNum x \<Rightarrow> (case b of CloudNum y \<Rightarrow> x = y | CloudAbsent \<Rightarrow> False | CloudUnparsable \<Rightarrow> False)
      | CloudAbsent \<Rightarrow> (case b of CloudNum y \<Rightarrow> False | CloudAbsent \<Rightarrow> True | CloudUnparsable \<Rightarrow> True)
      | CloudUnparsable \<Rightarrow> (case b of CloudNum y \<Rightarrow> False | CloudAbsent \<Rightarrow> True | CloudUnparsable \<Rightarrow> True))"

definition hours_from :: "int \<Rightarrow> int \<Rightarrow> real" where
  "hours_from target_dt dt = \<bar>real_of_int dt - real_of_int target_dt\<bar> / (3600 * 1000000)"

definition spec_order :: "int \<Rightarrow> 'a candidate_scheme \<Rightarrow> 'a candidate_scheme \<Rightarrow> bool" where
  "spec_order target_dt a b =
     (case datetime_prop a of
        DtUtc ta \<Rightarrow>
          (case datetime_prop b of
             DtUtc tb \<Rightarrow>
               cloud_before (cloud_cover a) (cloud_cover b)
               \<or> (cloud_tied (cloud_cover a) (cloud_cover b)
                   \<and> (hours_from target_dt ta < hours_from target_dt tb
                       \<or> (hours_from target_dt ta = hours_from target_dt tb \<and> ta \<le> tb)))
           | DtMissing \<Rightarrow> False
           | DtMalformed \<Rightarrow> False)
      | DtMissing \<Rightarrow> False
      | DtMalformed \<Rightarrow> False)"

subsection \<open>The downloader's reading of a manifest entry\<close>

text \<open>
  Lines 84 to 93 of \<^verbatim>\<open>main\<close> in \<^verbatim>\<open>s2_s3_download_rgb.py\<close>: the identifier used for the
  paths of candidate \<^verbatim>\<open>i\<close>, and whether the mismatch warning was printed. The test is
  \<^verbatim>\<open>entry.get("id") and entry["id"] != item_id\<close>; an empty string is falsy.
\<close>

definition entry_item_id :: "candidate \<Rightarrow> asset_bundle \<Rightarrow> bool \<times> string" where
  "entry_item_id cand entry =
     (case bundle_id entry of
        None \<Rightarrow> (False, item_id cand)
      | Some e \<Rightarrow> if e \<noteq> [] \<and> e \<noteq> item_id cand then (True, e) else (False, item_id cand))"

subsection \<open>Float arrays and the normalized index\<close>

text \<open>
  An element of a numpy float array: a finite value, an infinity or NaN. Finite values
  are reals: the rounding of \<^verbatim>\<open>float32\<close> and the overflow of finite operands to an
  infinity are not modelled, nor is the sign of zero. An array is the list of its
  elements; the shape is the length.
\<close>

datatype npfloat = Val real | PosInf | NegInf | NaN

fun isfinite :: "npfloat \<Rightarrow> bool" where
  "isfinite (Val a) = True"
| "isfinite x = False"

fun np_neg :: "npfloat \<Rightarrow> npfloat" where
  "np_neg (Val a) = Val (- a)"
| "np_neg PosInf = NegInf"
| "np_neg NegInf = PosInf"
| "np_neg NaN = NaN"

fun np_add :: "npfloat \<Rightarrow> npfloat \<Rightarrow> npfloat" where
  "np_add (Val a) (Val b) = Val (a + b)"
| "np_add NaN y = NaN"
| "np_add x NaN = NaN"
| "np_add PosInf NegInf = NaN"
| "np_add NegInf PosInf = NaN"
| "np_add PosInf y = PosInf"
| "np_add NegInf y = NegInf"
| "np_add (Val a) y = y"

definition np_sub :: "npfloat \<Rightarrow> npfloat \<Rightarrow> npfloat" where
  "np_sub x y = np_add x (np_neg y)"

fun np_div :: "npfloat \<Rightarrow> npfloat \<Rightarrow> npfloat" where
  "np_div (Val a) (Val b) =
     (if b \<noteq> 0 then Val (a / b) else if a = 0 then NaN else if 0 < a then PosInf else NegInf)"
| "np_div (Val a) PosInf = Val 0"
| "np_div (Val a) NegInf = Val 0"
| "np_div PosInf (Val b) = (if 0 \<le> b then PosInf else NegInf)"
| "np_div NegInf (Val b) = (if 0 \<le> b then NegInf else PosInf)"
| "np_div x y = NaN"

text \<open>
  \<^verbatim>\<open>a - b\<close> and \<^verbatim>\<open>a + b\<close> on two arrays of one shape (in \<^verbatim>\<open>main\<close> every band is read at
  the shape of the reference raster).
\<close>

definition arr_sub :: "npfloat list \<Rightarrow> npfloat list \<Rightarrow> npfloat list" where
  "arr_sub a b = map2 np_sub a b"

definition arr_add :: "npfloat list \<Rightarrow> npfloat list \<Rightarrow> npfloat list" where
  "arr_add a b = map2 np_add a b"

text \<open>
  \<^verbatim>\<open>safe_index(num, den)\<close>: the output starts as NaN everywhere; the mask
  \<^verbatim>\<open>m = isfinite(num) & isfinite(den) & (den != 0)\<close> selects the positions that receive
  \<^verbatim>\<open>num / den\<close>. On one-dimensional arrays of different lengths numpy raises: the
  operands of \<^verbatim>\<open>&\<close> do not broadcast (\<^verbatim>\<open>ValueError\<close>), or, when one array has a
  single element, the broadcast mask does not fit that array (\<^verbatim>\<open>IndexError\<close>).
\<close>

definition safe_index_px :: "npfloat \<Rightarrow> npfloat \<Rightarrow> npfloat" where
  "safe_index_px n d =
     (let m = isfinite n \<and> isfinite d \<and> d \<noteq> Val 0
      in if m then np_div n d else NaN)"

definition safe_index :: "npfloat list \<Rightarrow> npfloat list \<Rightarrow> py_error + npfloat list" where
  "safe_index num den =
     (if length num = length den then Inr (map2 safe_index_px num den)
      else if length num = 1 \<or> length den = 1 then Inl IndexError
      else Inl ValueError)"

subsection \<open>The scene-classification mask\<close>

definition SCL_EXCLUDE :: "int list" where
  "SCL_EXCLUDE = [0, 1, 2, 3, 7, 8, 9, 10, 11]"

text \<open>\<^verbatim>\<open>np.isin(scl, list(SCL_EXCLUDE))\<close>.\<close>

definition isin :: "int list \<Rightarrow> int list \<Rightarrow> bool list" where
  "isin scl codes = map (\<lambda>c. c \<in> set codes) scl"

text \<open>
  \<^verbatim>\<open>arr[mask_bad] = np.nan\<close>, for a mask of the array's shape (the classification layer
  is read at the shape of the reference raster as the bands are).
\<close>

definition set_nan :: "npfloat list \<Rightarrow> bool list \<Rightarrow> npfloat list" where
  "set_nan arr mask_bad = map2 (\<lambda>v bad. if bad then NaN else v) arr mask_bad"

text \<open>Lines 151 to 157 of \<^verbatim>\<open>main\<close> in \<^verbatim>\<open>s2_make_indices.py\<close>.\<close>

definition apply_scl_mask ::
  "int list option \<Rightarrow> npfloat list \<Rightarrow> npfloat list \<Rightarrow> npfloat list option
     \<Rightarrow> npfloat list \<times> npfloat list \<times> npfloat list option" where
  "apply_scl_mask scl ndvi ndwi mndwi =
     (case scl of
        None \<Rightarrow> (ndvi, ndwi, mndwi)
      | Some s \<Rightarrow>
          (let mask_bad = isin s SCL_EXCLUDE
           in (set_nan ndvi mask_bad, set_nan ndwi mask_bad,
               (case mndwi of None \<Rightarrow> None | Some m \<Rightarrow> Some (set_nan m mask_bad)))))"

subsection \<open>The index stage, one candidate\<close>

text \<open>
  The disk maps a path to band 1 of the file there, as \<^verbatim>\<open>read_resampled\<close> returns it at
  the shape of the reference raster (the resampling is rasterio's); \<^verbatim>\<open>None\<close> is a path
  with no file. The pixel values of the files are integers; the bands are cast to
  \<^verbatim>\<open>float32\<close>, the classification layer to \<^verbatim>\<open>int16\<close>.
\<close>

type_synonym disk = "string \<rightharpoonup> int list"

definition band_path :: "string \<Rightarrow> string \<Rightarrow> string \<Rightarrow> string \<Rightarrow> string" where
  "band_path dl_root sensor iid k =
     dl_root @ ''/'' @ sensor @ ''/'' @ iid @ ''/'' @ iid @ ''_'' @ k @ ''.jp2''"

definition as_float32 :: "int list \<Rightarrow> npfloat list" where
  "as_float32 px = map (\<lambda>v. Val (real_of_int v)) px"

text \<open>
  What the body of the loop over the candidates does for one of them: it skips the
  candidate, raises, or saves NDVI, NDWI and, when B11 was read, MNDWI. The identifier in
  the paths is the candidate's. The dictionary \<^verbatim>\<open>extra\<close> is the entry's \<^verbatim>\<open>index\<close>, the
  key the selector writes (the older key \<^verbatim>\<open>index_extra\<close>, read when \<^verbatim>\<open>index\<close> is
  missing, is not part of the entry).
\<close>

datatype outcome = Skipped | Saved "npfloat list" "npfloat list" "npfloat list option"

text \<open>\<^verbatim>\<open>entry.get(key, {}) or {}\<close>.\<close>

definition dict_or_empty :: "'v dict option \<Rightarrow> 'v dict" where
  "dict_or_empty d = (case d of None \<Rightarrow> [] | Some m \<Rightarrow> m)"

text \<open>\<^verbatim>\<open>.astype(np.int16)\<close>: the value modulo \<open>2^16\<close>, read as a signed 16-bit integer.\<close>

definition as_int16 :: "int list \<Rightarrow> int list" where
  "as_int16 px = map (\<lambda>v. (v + 32768) mod 65536 - 32768) px"

definition make_indices :: "disk \<Rightarrow> string \<Rightarrow> string \<Rightarrow> candidate \<Rightarrow> asset_bundle \<Rightarrow> py_error + outcome" where
  "make_indices dsk dl_root sensor cand entry =
     (let iid = item_id cand;
          bnds = dict_or_empty (bands entry);
          extra = dict_or_empty (index_assets entry)
      in case (dict_get bnds ''B03'', dict_get bnds ''B04'', dict_get extra ''B08'',
               dict_get extra ''B11'', dict_get extra ''SCL'') of
           (Some r03, Some r04, Some r08, Some r11, Some rscl) \<Rightarrow>
             (let p_b03 = band_path dl_root sensor iid (ref_key r03);
                  p_b04 = band_path dl_root sensor iid (ref_key r04);
                  p_b08 = band_path dl_root sensor iid (ref_key r08);
                  p_b11 = band_path dl_root sensor iid (ref_key r11);
                  p_scl = band_path dl_root sensor iid (ref_key rscl)
              in case (dsk p_b03, dsk p_b04, dsk p_b08) of
                   (Some x03, Some x04, Some x08) \<Rightarrow>
                     (let b03 = as_float32 x03;
                          b04 = as_float32 x04;
                          b08 = as_float32 x08;
                          scl = map_option as_int16 (dsk p_scl);
                          b11 = map_option as_float32 (dsk p_b11)
                      in case safe_index (arr_sub b08 b04) (arr_add b08 b04) of
                           Inl e \<Rightarrow> Inl e
                         | Inr ndvi \<Rightarrow>
                             (case safe_index (arr_sub b03 b08) (arr_add b03 b08) of
                                Inl e \<Rightarrow> Inl e
                              | Inr ndwi \<Rightarrow>
                                  (case (case b11 of
                                           None \<Rightarrow> Inr None
                                         | Some x11 \<Rightarrow>
                                             map_sum id Some
                                               (safe_index (arr_sub b03 x11) (arr_add b03 x11))) of
                                     Inl e \<Rightarrow> Inl e
                                   | Inr mndwi \<Rightarrow>
                                       (case apply_scl_mask scl ndvi ndwi mndwi of
                                          (ndvi', ndwi', mndwi') \<Rightarrow> Inr (Saved ndvi' ndwi' mndwi')))))
                 | _ \<Rightarrow> Inl FileNotFoundError)
         | _ \<Rightarrow> Inr Skipped)"

subsection \<open>The download step\<close>

text \<open>
  \<^verbatim>\<open>urlparse\<close> is the standard library's: a parameter, with the three parts of its result
  that \<^verbatim>\<open>parse_s3_href\<close> reads.
\<close>

record url =
  scheme :: string
  netloc :: string
  url_path :: string

definition parse_s3_href :: "(string \<Rightarrow> url) \<Rightarrow> string \<Rightarrow> py_error + string \<times> string" where
  "parse_s3_href urlparse h =
     (let u = urlparse h
      in if scheme u \<noteq> ''s3'' then Inl ValueError
         else Inr (netloc u, dropWhile (\<lambda>c. c = CHR ''/'') (url_path u)))"

text \<open>
  The state the download stage acts on: the files of the local disk, by path, with their
  bytes, and the log of the calls of \<^verbatim>\<open>s3.download_file\<close> (bucket, key, destination).
  Directories are not part of the state: \<^verbatim>\<open>mkdir(parents=True, exist_ok=True)\<close> creates
  or keeps a directory and touches no file. The object store maps a bucket and a key to
  the object's bytes, or to the error the client raises.
\<close>

record world =
  files :: "string \<rightharpoonup> string"
  calls :: "(string \<times> string \<times> string) list"

type_synonym s3_client = "string \<Rightarrow> string \<Rightarrow> py_error + string"

text \<open>\<^verbatim>\<open>out_path.exists() and out_path.stat().st_size > 0\<close>.\<close>

definition exists_nonempty :: "world \<Rightarrow> string \<Rightarrow> bool" where
  "exists_nonempty w p = (case files w p of None \<Rightarrow> False | Some c \<Rightarrow> 0 < length c)"

text \<open>
  \<^verbatim>\<open>ensure_download\<close>, the same text in \<^verbatim>\<open>s2_s3_download_rgb.py\<close> and in
  \<^verbatim>\<open>s2_download_top3_and_compare.py\<close>. The result is the exception, if one was raised,
  and the state at that point.
\<close>

definition ensure_download ::
  "(string \<Rightarrow> url) \<Rightarrow> s3_client \<Rightarrow> string \<Rightarrow> string \<Rightarrow> world \<Rightarrow> py_error option \<times> world" where
  "ensure_download urlparse s3 h out_path w =
     (case parse_s3_href urlparse h of
        Inl e \<Rightarrow> (Some e, w)
      | Inr (bucket, k) \<Rightarrow>
          if exists_nonempty w out_path then (None, w)
          else
            (let w' = w\<lparr>calls := calls w @ [(bucket, k, out_path)]\<rparr>
             in case s3 bucket k of
                  Inl e \<Rightarrow> (Some e, w')
                | Inr data \<Rightarrow> (None, w'\<lparr>files := (files w')(out_path \<mapsto> data)\<rparr>)))"

subsection \<open>The download stage\<close>

text \<open>
  \<^verbatim>\<open>main\<close> of \<^verbatim>\<open>s2_s3_download_rgb.py\<close>. Every asset goes through the same four lines:
  an existing non-empty file is reported as present, anything else is handed to
  \<^verbatim>\<open>ensure_download\<close>.
\<close>

definition fetch ::
  "(string \<Rightarrow> url) \<Rightarrow> s3_client \<Rightarrow> string \<Rightarrow> string \<Rightarrow> world \<Rightarrow> py_error option \<times> world" where
  "fetch urlparse s3 h out_path w =
     (if exists_nonempty w out_path then (None, w)
      else ensure_download urlparse s3 h out_path w)"

text \<open>Part (1): the true-colour image, when the entry has one with an \<^verbatim>\<open>href\<close>.\<close>

definition download_tci ::
  "(string \<Rightarrow> url) \<Rightarrow> s3_client \<Rightarrow> string \<Rightarrow> string \<Rightarrow> string \<Rightarrow> asset_ref option \<Rightarrow> world
     \<Rightarrow> py_error option \<times> world" where
  "download_tci urlparse s3 dl_root sensor iid t w =
     (case t of
        None \<Rightarrow> (None, w)
      | Some a \<Rightarrow>
          if ref_href a \<noteq> [] then fetch urlparse s3 (ref_href a) (band_path dl_root sensor iid (ref_key a)) w
          else (None, w))"

text \<open>
  Part (2): the loop over B02, B03, B04; a band without an \<^verbatim>\<open>href\<close> raises
  \<^verbatim>\<open>RuntimeError\<close>.
\<close>

fun download_bands ::
  "(string \<Rightarrow> url) \<Rightarrow> s3_client \<Rightarrow> string \<Rightarrow> string \<Rightarrow> string \<Rightarrow> asset_ref dict
     \<Rightarrow> string list \<Rightarrow> world \<Rightarrow> py_error option \<times> world" where
  "download_bands urlparse s3 dl_root sensor iid bnds [] w = (None, w)"
| "download_bands urlparse s3 dl_root sensor iid bnds (band # rest) w =
     (case dict_get bnds band of
        None \<Rightarrow> (Some RuntimeError, w)
      | Some a \<Rightarrow>
          if ref_href a = [] then (Some RuntimeError, w)
          else
            (case fetch urlparse s3 (ref_href a) (band_path dl_root sensor iid (ref_key a)) w of
               (Some e, w') \<Rightarrow> (Some e, w')
             | (None, w') \<Rightarrow> download_bands urlparse s3 dl_root sensor iid bnds rest w'))"

text \<open>Part (3): the loop over B08, B11, SCL; an asset without an \<^verbatim>\<open>href\<close> is passed over.\<close>

fun download_extra ::
  "(string \<Rightarrow> url) \<Rightarrow> s3_client \<Rightarrow> string \<Rightarrow> string \<Rightarrow> string \<Rightarrow> asset_ref dict
     \<Rightarrow> string list \<Rightarrow> world \<Rightarrow> py_error option \<times> world" where
  "download_extra urlparse s3 dl_root sensor iid extra [] w = (None, w)"
| "download_extra urlparse s3 dl_root sensor iid extra (k # rest) w =
     (case dict_get extra k of
        None \<Rightarrow> download_extra urlparse s3 dl_root sensor iid extra rest w
      | Some a \<Rightarrow>
          if ref_href a = [] then download_extra urlparse s3 dl_root sensor iid extra rest w
          else
            (case fetch urlparse s3 (ref_href a) (band_path dl_root sensor iid (ref_key a)) w of
               (Some e, w') \<Rightarrow> (Some e, w')
             | (None, w') \<Rightarrow> download_extra urlparse s3 dl_root sensor iid extra rest w'))"

text \<open>
  The body of the loop over the candidates. The tests \<^verbatim>\<open>if bands:\<close> and \<^verbatim>\<open>if extra:\<close>
  ask for a non-empty dictionary.
\<close>

definition download_candidate ::
  "(string \<Rightarrow> url) \<Rightarrow> s3_client \<Rightarrow> string \<Rightarrow> string \<Rightarrow> candidate \<Rightarrow> asset_bundle \<Rightarrow> world
     \<Rightarrow> py_error option \<times> world" where
  "download_candidate urlparse s3 dl_root sensor cand entry w =
     (let iid = snd (entry_item_id cand entry);
          bnds = dict_or_empty (bands entry);
          extra = dict_or_empty (index_assets entry)
      in case download_tci urlparse s3 dl_root sensor iid (tci entry) w of
           (Some e, w1) \<Rightarrow> (Some e, w1)
         | (None, w1) \<Rightarrow>
             (case (if bnds \<noteq> []
                    then download_bands urlparse s3 dl_root sensor iid bnds
                           [''B02'', ''B03'', ''B04''] w1
                    else (None, w1)) of
                (Some e, w2) \<Rightarrow> (Some e, w2)
              | (None, w2) \<Rightarrow>
                  (if extra \<noteq> []
                   then download_extra urlparse s3 dl_root sensor iid extra
                          [''B08'', ''B11'', ''SCL''] w2
                   else (None, w2))))"

text \<open>
  \<^verbatim>\<open>for i in range(n)\<close> with \<^verbatim>\<open>n = min(len(candidates), len(candidates_assets))\<close>: the
  loop over the pairs at one position.
\<close>

fun download_candidates ::
  "(string \<Rightarrow> url) \<Rightarrow> s3_client \<Rightarrow> string \<Rightarrow> string \<Rightarrow> (candidate \<times> asset_bundle) list \<Rightarrow> world
     \<Rightarrow> py_error option \<times> world" where
  "download_candidates urlparse s3 dl_root sensor [] w = (None, w)"
| "download_candidates urlparse s3 dl_root sensor ((cand, entry) # rest) w =
     (case download_candidate urlparse s3 dl_root sensor cand entry w of
        (Some e, w') \<Rightarrow> (Some e, w')
      | (None, w') \<Rightarrow> download_candidates urlparse s3 dl_root sensor rest w')"

text \<open>
  The loop over the targets of the manifest, each with its sensor name: a target whose
  status is not \<^verbatim>\<open>ok\<close> or that has an empty list is passed over.
\<close>

fun download_main ::
  "(string \<Rightarrow> url) \<Rightarrow> s3_client \<Rightarrow> string \<Rightarrow> (string \<times> result) list \<Rightarrow> world
     \<Rightarrow> py_error option \<times> world" where
  "download_main urlparse s3 dl_root [] w = (None, w)"
| "download_main urlparse s3 dl_root ((sensor, No_items t r) # rest) w =
     download_main urlparse s3 dl_root rest w"
| "download_main urlparse s3 dl_root ((sensor, Ok_result t su candidates candidates_assets) # rest) w =
     (if candidates = [] \<or> candidates_assets = [] then download_main urlparse s3 dl_root rest w
      else
        (case download_candidates urlparse s3 dl_root sensor (zip candidates candidates_assets) w of
           (Some e, w') \<Rightarrow> (Some e, w')
         | (None, w') \<Rightarrow> download_main urlparse s3 dl_root rest w'))"

text \<open>
  What a run may do to a state: a file that existed non-empty before the run is the same
  after it, and every call the run added to the log has a destination that held no
  non-empty file before the run.
\<close>

definition spares :: "world \<Rightarrow> world \<Rightarrow> bool" where
  "spares w w' =
     ((\<forall>p. exists_nonempty w p \<longrightarrow> files w' p = files w p)
      \<and> (\<exists>new. calls w' = calls w @ new
            \<and> (\<forall>c\<in>set new. \<not> exists_nonempty w (snd (snd c)))))"

text \<open>
  The files a manifest names, as the layout places them: for every candidate of every
  \<^verbatim>\<open>ok\<close> target, the destination of each asset the entry lists with a reference (true
  colour, the three colour bands, B08, B11, SCL).
\<close>

definition ref_dest :: "string \<Rightarrow> string \<Rightarrow> string \<Rightarrow> asset_ref option \<Rightarrow> string list" where
  "ref_dest dl_root sensor iid a =
     (case a of
        None \<Rightarrow> []
      | Some r \<Rightarrow> if ref_href r \<noteq> [] then [band_path dl_root sensor iid (ref_key r)] else [])"

definition entry_dests :: "string \<Rightarrow> string \<Rightarrow> candidate \<Rightarrow> asset_bundle \<Rightarrow> string list" where
  "entry_dests dl_root sensor cand entry =
     (let iid = snd (entry_item_id cand entry)
      in ref_dest dl_root sensor iid (tci entry)
         @ concat (map (\<lambda>k. ref_dest dl_root sensor iid (dict_get (dict_or_empty (bands entry)) k))
                     [''B02'', ''B03'', ''B04''])
         @ concat (map (\<lambda>k. ref_dest dl_root sensor iid (dict_get (dict_or_empty (index_assets entry)) k))
                     [''B08'', ''B11'', ''SCL'']))"

fun target_dests :: "string \<Rightarrow> string \<times> result \<Rightarrow> string list" where
  "target_dests dl_root (sensor, No_items t r) = []"
| "target_dests dl_root (sensor, Ok_result t su candidates candidates_assets) =
     concat (map (\<lambda>(cand, entry). entry_dests dl_root sensor cand entry)
               (zip candidates candidates_assets))"

definition manifest_dests :: "string \<Rightarrow> (string \<times> result) list \<Rightarrow> string list" where
  "manifest_dests dl_root targets = concat (map (target_dests dl_root) targets)"

subsection \<open>The percentile stretches\<close>

text \<open>
  A channel is the list of its pixel values. The bands are integer rasters cast to
  \<^verbatim>\<open>float32\<close>, so every value is finite and the tests \<^verbatim>\<open>np.isfinite\<close> hold throughout;
  the values are reals (rounding is not modelled).

  \<^verbatim>\<open>np.percentile(a, q)\<close> with the default linear interpolation, for a non-empty array
  and \<^verbatim>\<open>q\<close> between 0 and 100: the value at the index \<^verbatim>\<open>q/100 * (n - 1)\<close> of the
  sorted array, interpolated between its two neighbours. (For an empty array the index is
  out of range and the value below is unspecified; numpy's result there is not modelled.)
  For \<^verbatim>\<open>q\<close> outside 0 to 100 numpy raises \<^verbatim>\<open>ValueError\<close>: \<open>np_percentile\<close> is the call
  with that check, used where \<^verbatim>\<open>q\<close> is a parameter.
\<close>

definition percentile :: "real list \<Rightarrow> real \<Rightarrow> real" where
  "percentile a q =
     (let srt = sort a;
          n = length a;
          h = q / 100 * real (n - 1);
          i = nat \<lfloor>h\<rfloor>;
          j = min (i + 1) (n - 1)
      in srt ! i + (h - real i) * (srt ! j - srt ! i))"

definition np_percentile :: "real list \<Rightarrow> real \<Rightarrow> py_error + real" where
  "np_percentile a q = (if q < 0 \<or> 100 < q then Inl ValueError else Inr (percentile a q))"

text \<open>\<^verbatim>\<open>chan[np.isfinite(chan) & (chan > 0)]\<close>.\<close>

definition positive :: "real list \<Rightarrow> real list" where
  "positive chan = filter (\<lambda>x. 0 < x) chan"

text \<open>\<^verbatim>\<open>np.clip((chan - lo) / (hi - lo), 0, 1)\<close>.\<close>

definition linear_map :: "real \<Rightarrow> real \<Rightarrow> real list \<Rightarrow> real list" where
  "linear_map lo hi chan = map (\<lambda>x. max 0 (min 1 ((x - lo) / (hi - lo)))) chan"

text \<open>
  The body of the loop over the channels in \<^verbatim>\<open>normalize_rgb_uint8\<close> of
  \<^verbatim>\<open>s2_make_compare_png.py\<close>: first the two percentiles, then the range the linear
  mapping uses. (The gamma and the cast to \<^verbatim>\<open>uint8\<close> that follow are not modelled.)
\<close>

definition percentiles_png :: "real list \<Rightarrow> real \<times> real" where
  "percentiles_png chan =
     (let v = positive chan
      in if length v < 100 then
           (if chan \<noteq> [] then (percentile chan 2, percentile chan 98) else (0, 1))
         else (percentile v 2, percentile v 98))"

definition channel_range_png :: "real list \<Rightarrow> real \<times> real" where
  "channel_range_png chan =
     (let v = positive chan;
          (lo, hi) = percentiles_png chan
      in if hi \<le> lo then
           (let lo' = (if v \<noteq> [] then Min (set v) else 0);
                hi' = (if v \<noteq> [] then Max (set v) else 1)
            in if hi' \<le> lo' then (lo', lo' + 1) else (lo', hi'))
         else (lo, hi))"

definition stretch_channel_png :: "real list \<Rightarrow> real list" where
  "stretch_channel_png chan = (case channel_range_png chan of (lo, hi) \<Rightarrow> linear_map lo hi chan)"

text \<open>
  The same loop body in \<^verbatim>\<open>s2_download_top3_and_compare.py\<close>. Its fallback is
  \<^verbatim>\<open>lo, hi = float(np.min(v)), float(np.max(v) if v.size else 1.0)\<close>: \<^verbatim>\<open>np.min\<close> of an
  empty array raises \<^verbatim>\<open>ValueError\<close>.
\<close>

definition percentiles_top3 :: "real list \<Rightarrow> real \<times> real" where
  "percentiles_top3 chan =
     (let v = positive chan
      in if length v < 100 then (percentile chan 2, percentile chan 98)
         else (percentile v 2, percentile v 98))"

definition channel_range_top3 :: "real list \<Rightarrow> py_error + real \<times> real" where
  "channel_range_top3 chan =
     (let v = positive chan;
          (lo, hi) = percentiles_top3 chan
      in if hi \<le> lo then
           (if v = [] then Inl ValueError
            else
              (let lo' = Min (set v);
                   hi' = Max (set v)
               in if hi' \<le> lo' then Inr (lo', lo' + 1) else Inr (lo', hi')))
         else Inr (lo, hi))"

definition stretch_channel_top3 :: "real list \<Rightarrow> py_error + real list" where
  "stretch_channel_top3 chan =
     (case channel_range_top3 chan of
        Inl e \<Rightarrow> Inl e
      | Inr (lo, hi) \<Rightarrow> Inr (linear_map lo hi chan))"

text \<open>
  \<^verbatim>\<open>percentile_stretch\<close> of \<^verbatim>\<open>s2_make_rgb.py\<close>. On finite values \<^verbatim>\<open>np.nanpercentile\<close>,
  \<^verbatim>\<open>np.nanmin\<close> and \<^verbatim>\<open>np.nanmax\<close> are the percentile, the minimum and the maximum, and
  the tests \<^verbatim>\<open>np.isfinite(lo)\<close> and \<^verbatim>\<open>np.isfinite(hi)\<close> hold. On an empty array
  \<^verbatim>\<open>np.nanmin\<close> raises \<^verbatim>\<open>ValueError\<close>.
\<close>

definition percentile_stretch :: "real list \<Rightarrow> real \<Rightarrow> real \<Rightarrow> py_error + real list" where
  "percentile_stretch x p_low p_high =
     (case np_percentile x p_low of
        Inl e \<Rightarrow> Inl e
      | Inr lo \<Rightarrow>
          (case np_percentile x p_high of
             Inl e \<Rightarrow> Inl e
           | Inr hi \<Rightarrow>
               if x = [] then Inl ValueError
               else if hi \<le> lo then
                 (let lo' = Min (set x);
                      hi' = Max (set x)
                  in if hi' \<le> lo' then Inr (replicate (length x) 0)
                     else Inr (linear_map lo' hi' x))
               else Inr (linear_map lo hi x)))"

subsection \<open>Example inputs\<close>

text \<open>
  The configuration of \<^verbatim>\<open>main\<close> with the defaults of \<^verbatim>\<open>PickConfig\<close> for the window and
  the ceiling, and a scene without assets given by its identifier, its cloud cover and its
  distance from the epoch in hours.
\<close>

definition example_cfg :: PickConfig where
  "example_cfg =
     \<lparr>bbox = [127.2, 36.2, 127.6, 36.5], collection = ''sentinel-2-l2a'', window_days = 3,
      cloud_lt = 20, max_items = 200, prefer_same_orbit = False\<rparr>"

definition scene :: "string \<Rightarrow> real \<Rightarrow> int \<Rightarrow> item" where
  "scene name cc hours =
     \<lparr>item_id = name, datetime_prop = DtUtc (hours * 3600 * 1000000),
      cloud_cover = CloudNum cc, proj_epsg = Some 32652, assets = Map.empty\<rparr>"

text \<open>
  A manifest entry that lists the three colour bands and the three index assets, and a
  disk that holds B03, B04 and B08 of that candidate (two pixels each) but neither B11 nor
  the classification layer.
\<close>

definition example_entry :: asset_bundle where
  "example_entry =
     \<lparr>bundle_id = Some ''A'', tci = None,
      bands = Some [(''B02'', Some \<lparr>ref_key = ''B02_10m'', ref_href = ''s3://eodata/A/B02.jp2'', ref_type = None\<rparr>),
                    (''B03'', Some \<lparr>ref_key = ''B03_10m'', ref_href = ''s3://eodata/A/B03.jp2'', ref_type = None\<rparr>),
                    (''B04'', Some \<lparr>ref_key = ''B04_10m'', ref_href = ''s3://eodata/A/B04.jp2'', ref_type = None\<rparr>)],
      index_assets = Some [(''B08'', Some \<lparr>ref_key = ''B08_10m'', ref_href = ''s3://eodata/A/B08.jp2'', ref_type = None\<rparr>),
                    (''B11'', Some \<lparr>ref_key = ''B11_20m'', ref_href = ''s3://eodata/A/B11.jp2'', ref_type = None\<rparr>),
                    (''SCL'', Some \<lparr>ref_key = ''SCL_20m'', ref_href = ''s3://eodata/A/SCL.jp2'', ref_type = None\<rparr>)]\<rparr>"

definition example_disk :: disk where
  "example_disk =
     [''dl/S/A/A_B03_10m.jp2'' \<mapsto> [2, 0], ''dl/S/A/A_B04_10m.jp2'' \<mapsto> [1, 0],
      ''dl/S/A/A_B08_10m.jp2'' \<mapsto> [3, 0]]"

text \<open>
  The disk after the downloader has stored B03, B04 and B08 of a candidate under the
  identifier B.
\<close>

definition disk_under_B :: disk where
  "disk_under_B =
     [''dl/S/B/B_B03_10m.jp2'' \<mapsto> [2, 0], ''dl/S/B/B_B04_10m.jp2'' \<mapsto> [1, 0],
      ''dl/S/B/B_B08_10m.jp2'' \<mapsto> [3, 0]]"

text \<open>
  A stand-in for \<^verbatim>\<open>urlparse\<close> on references of the shape \<^verbatim>\<open>scheme://netloc/path\<close>, and
  a disk of the download stage that holds every file of candidate A but the
  classification layer.
\<close>

definition example_urlparse :: "string \<Rightarrow> url" where
  "example_urlparse h =
     (let sch = takeWhile (\<lambda>c. c \<noteq> CHR '':'') h;
          rest = drop (length sch + 3) h
      in \<lparr>scheme = sch, netloc = takeWhile (\<lambda>c. c \<noteq> CHR ''/'') rest,
          url_path = dropWhile (\<lambda>c. c \<noteq> CHR ''/'') rest\<rparr>)"

definition partial_world :: world where
  "partial_world =
     \<lparr>files = [''dl/S/A/A_B02_10m.jp2'' \<mapsto> ''b02'', ''dl/S/A/A_B03_10m.jp2'' \<mapsto> ''b03'',
               ''dl/S/A/A_B04_10m.jp2'' \<mapsto> ''b04'', ''dl/S/A/A_B08_10m.jp2'' \<mapsto> ''b08'',
               ''dl/S/A/A_B11_20m.jp2'' \<mapsto> ''b11''],
      calls = []\<rparr>"

section \<open>Properties\<close>

subsection \<open>Evaluation of the selector on concrete inputs\<close>

lemmas eval_pick = pick_topk_items_def plan_def example_cfg_def scene_def search_query_def
  datetime_range_def day_us_def min_us_def max_us_def items_sorted_def score_item_def to_dt_utc_def safe_get_cloud_def
  slice_to_def summary_def rgb_assets_def pick_s2_tci_asset_def pick_s2_rgb_bands_def
  pick_s2_index_assets_def get_asset_def dict_get_def Let_def

subsection \<open>The sort and the pool\<close>

lemma decorate_Inr:
  "decorate t xs = Inr ps \<Longrightarrow> map snd ps = xs \<and> (\<forall>p\<in>set ps. score_item t (snd p) = Inr (fst p))"
  by (induction xs arbitrary: ps) (auto split: sum.splits)

lemma decorate_keys:
  "decorate t xs = Inr ps \<Longrightarrow> map (score_item t) xs = map (\<lambda>p. Inr (fst p)) ps"
  by (induction xs arbitrary: ps) (auto split: sum.splits)

lemma decorate_append:
  "decorate t xs = Inr ps \<Longrightarrow> decorate t ys = Inr qs \<Longrightarrow> decorate t (xs @ ys) = Inr (ps @ qs)"
  by (induction xs arbitrary: ps) (auto split: sum.splits)

lemma decorate_rev:
  "decorate t xs = Inr ps \<Longrightarrow> decorate t (rev xs) = Inr (rev ps)"
proof (induction xs arbitrary: ps)
  case Nil
  then show ?case by simp
next
  case (Cons x xs)
  from Cons.prems obtain k qs where k: "score_item t x = Inr k" and qs: "decorate t xs = Inr qs"
    and ps: "ps = (k, x) # qs"
    by (auto split: sum.splits)
  have "decorate t [x] = Inr [(k, x)]" using k by simp
  with Cons.IH [OF qs] show ?case
    unfolding ps by (simp add: decorate_append)
qed

lemma items_sorted_sorted:
  assumes "items_sorted t xs = Inr ys"
  shows "sorted_wrt (score_le t) ys"
proof -
  from assms obtain ps where ps: "decorate t xs = Inr ps" and ys: "ys = map snd (sort_key fst ps)"
    by (auto simp: items_sorted_def split: sum.splits)
  have keys: "\<forall>p\<in>set (sort_key fst ps). score_item t (snd p) = Inr (fst p)"
    using decorate_Inr [OF ps] by simp
  have "sorted (map fst (sort_key fst ps))" by simp
  then have "sorted_wrt (\<lambda>p q. fst p \<le> fst q) (sort_key fst ps)"
    by (simp add: sorted_wrt_map)
  then have "sorted_wrt (\<lambda>p q. score_le t (snd p) (snd q)) (sort_key fst ps)"
    by (rule sorted_wrt_mono_rel [rotated]) (use keys in \<open>auto simp: score_le_def\<close>)
  then show ?thesis
    by (simp add: ys sorted_wrt_map)
qed

lemma items_sorted_rev:
  assumes "items_sorted t xs = Inr ys" and "distinct (map (score_item t) xs)"
  shows "items_sorted t (rev xs) = Inr ys"
proof -
  from assms(1) obtain ps where ps: "decorate t xs = Inr ps" and ys: "ys = map snd (sort_key fst ps)"
    by (auto simp: items_sorted_def split: sum.splits)
  have "distinct (map (\<lambda>p. (Inr (fst p) :: py_error + score)) ps)"
    using assms(2) decorate_keys [OF ps] by simp
  then have "distinct (map fst ps)"
    by (simp add: distinct_map inj_on_def)
  then have inj: "inj_on fst (set (rev ps))"
    by (simp add: distinct_map)
  have "sort_key fst (rev ps) = sort_key fst ps"
    by (rule sort_key_inj_key_eq [OF _ inj]) simp_all
  then show ?thesis
    using decorate_rev [OF ps] by (simp add: items_sorted_def ys)
qed

lemma collect_eq: "collect m acc xs = acc @ take (nat (max 1 (m - int (length acc)))) xs"
proof (induction xs arbitrary: acc)
  case Nil
  then show ?case by simp
next
  case (Cons x xs)
  show ?case
  proof (cases "m \<le> int (length acc) + 1")
    case True
    then have "nat (max 1 (m - int (length acc))) = 1"
      by linarith
    with True show ?thesis by simp
  next
    case False
    then have "nat (max 1 (m - int (length acc))) = Suc (nat (max 1 (m - int (length (acc @ [x])))))"
      by (simp add: max_def)
    with False Cons.IH [of "acc @ [x]"] show ?thesis by (simp add: Let_def)
  qed
qed

lemma collect_all:
  assumes "int (length xs) \<le> m"
  shows "collect m [] xs = xs"
proof -
  have "length xs \<le> nat (max 1 m)"
    using assms by linarith
  then show ?thesis
    by (simp add: collect_eq)
qed

lemma score_item_summary: "score_item t (summary it) = score_item t it"
  by (simp add: score_item_def summary_def safe_get_cloud_def split: sum.splits)

lemma score_le_summary: "score_le t (summary a) (summary b) = score_le t a b"
  by (simp add: score_le_def score_item_summary split: sum.splits)

lemma slice_to_take: "\<exists>n. slice_to k xs = take n xs"
  by (auto simp: slice_to_def)

lemma sorted_wrt_slice_to: "sorted_wrt P xs \<Longrightarrow> sorted_wrt P (slice_to k xs)"
  by (auto simp: slice_to_def intro: sorted_wrt_take)

lemma score_le_spec_order: "score_le t a b \<Longrightarrow> spec_order t a b"
proof -
  assume le: "score_le t a b"
  then obtain ta tb where ta: "datetime_prop a = DtUtc ta" and tb: "datetime_prop b = DtUtc tb"
    by (cases "datetime_prop a"; cases "datetime_prop b")
      (simp_all add: score_le_def score_item_def to_dt_utc_def)
  have h: "hours_from t x = real_of_int \<bar>x - t\<bar> / 1000000 / 3600" for x
    by (simp add: hours_from_def)
  from le show ?thesis
    by (cases "cloud_cover a"; cases "cloud_cover b")
      (auto simp: score_le_def score_item_def to_dt_utc_def safe_get_cloud_def spec_order_def
        cloud_before_def cloud_tied_def h ta tb)
qed

lemma sorted_spec_order: "sorted_wrt (score_le t) xs \<Longrightarrow> sorted_wrt (spec_order t) xs"
  using sorted_wrt_mono_rel [of xs "score_le t" "spec_order t"] score_le_spec_order by blast

lemma tiers_sorted:
  "tiers cl cfg t k lr pl = Inr (Ok_result t' su topk bundles) \<Longrightarrow> sorted_wrt (score_le t) topk"
proof (induction pl arbitrary: lr)
  case Nil
  then show ?case by simp
next
  case (Cons tier pl)
  obtain wd clt where tier: "tier = (wd, clt)" by (cases tier)
  from Cons.prems obtain rng where rng: "datetime_range t wd = Inr rng"
    by (cases "datetime_range t wd") (simp_all add: tier)
  show ?case
  proof (cases "collect (max_items cfg) [] (cl (search_query cfg rng clt)) = []")
    case True
    with Cons show ?thesis by (simp add: tier rng)
  next
    case False
    with Cons.prems obtain ys where ys: "items_sorted t (collect (max_items cfg) [] (cl (search_query cfg rng clt))) = Inr ys"
      and topk: "topk = map summary (slice_to k ys)"
      by (auto simp: tier rng Let_def split: sum.splits)
    have "sorted_wrt (score_le t) (slice_to k ys)"
      by (rule sorted_wrt_slice_to [OF items_sorted_sorted [OF ys]])
    then show ?thesis
      by (simp add: topk sorted_wrt_map score_le_summary)
  qed
qed

lemma tiers_rev:
  assumes "\<forall>q. distinct (map (score_item t) (cl q)) \<and> int (length (cl q)) \<le> max_items cfg"
  shows "tiers cl cfg t k lr pl = Inr r \<Longrightarrow> tiers (\<lambda>q. rev (cl q)) cfg t k lr pl = Inr r"
proof (induction pl arbitrary: lr)
  case Nil
  then show ?case by simp
next
  case (Cons tier pl)
  obtain wd clt where tier: "tier = (wd, clt)" by (cases tier)
  from Cons.prems obtain rng where rng: "datetime_range t wd = Inr rng"
    by (cases "datetime_range t wd") (simp_all add: tier)
  let ?q = "search_query cfg rng clt"
  have c1: "collect (max_items cfg) [] (cl ?q) = cl ?q"
    using assms by (simp add: collect_all)
  have c2: "collect (max_items cfg) [] (rev (cl ?q)) = rev (cl ?q)"
    using assms by (simp add: collect_all)
  show ?case
  proof (cases "cl ?q = []")
    case True
    with Cons c1 c2 show ?thesis by (simp add: tier rng)
  next
    case False
    with Cons.prems c1 obtain ys where ys: "items_sorted t (cl ?q) = Inr ys"
      by (auto simp: tier rng Let_def split: sum.splits)
    have "items_sorted t (rev (cl ?q)) = Inr ys"
      using items_sorted_rev [OF ys] assms by simp
    with Cons.prems False c1 c2 ys show ?thesis
      by (simp add: tier rng Let_def)
  qed
qed

lemma cloud_inf_top: "c \<le> CloudInf"
  by (cases c) auto

subsection \<open>The tier loop\<close>

lemma tiers_Inl_k:
  "tiers cl cfg t k lr pl = Inl e \<longleftrightarrow> tiers cl cfg t k' lr pl = Inl e"
proof (induction pl arbitrary: lr)
  case Nil
  show ?case by simp
next
  case (Cons tier pl)
  obtain wd clt where tier: "tier = (wd, clt)" by (cases tier)
  show ?case
    using Cons.IH by (simp add: tier Let_def split: sum.splits)
qed

lemma tiers_zero:
  "tiers cl cfg t 0 lr pl = Inr (Ok_result t' su topk bundles) \<Longrightarrow> topk = [] \<and> bundles = []"
proof (induction pl arbitrary: lr)
  case Nil
  then show ?case by simp
next
  case (Cons tier pl)
  obtain wd clt where tier: "tier = (wd, clt)" by (cases tier)
  show ?case
    using Cons by (auto simp: tier Let_def slice_to_def split: sum.splits if_splits)
qed

lemma tiers_all_empty:
  "\<forall>tier\<in>set pl. \<exists>rng. datetime_range t (fst tier) = Inr rng
       \<and> cl (search_query cfg rng (snd tier)) = [] \<Longrightarrow>
   tiers cl cfg t k lr pl =
     Inr (No_items t (if pl = [] then (case lr of None \<Rightarrow> No_items_found | Some r \<Rightarrow> r)
                      else No_items_in (fst (last pl)) (snd (last pl))))"
proof (induction pl arbitrary: lr)
  case Nil
  show ?case by simp
next
  case (Cons tier pl)
  obtain wd clt where tier: "tier = (wd, clt)" by (cases tier)
  from Cons.prems obtain rng where "datetime_range t wd = Inr rng"
    and "cl (search_query cfg rng clt) = []"
    by (auto simp: tier)
  with Cons show ?case
    by (simp add: tier)
qed

lemma tiers_aligned:
  "tiers cl cfg t k lr pl = Inr (Ok_result t' su topk bundles) \<Longrightarrow>
   map bundle_id bundles = map (\<lambda>c. Some (item_id c)) topk"
proof (induction pl arbitrary: lr)
  case Nil
  then show ?case by simp
next
  case (Cons tier pl)
  obtain wd clt where tier: "tier = (wd, clt)" by (cases tier)
  show ?case
    using Cons by (auto simp: tier Let_def summary_def rgb_assets_def split: sum.splits if_splits)
qed

subsection \<open>Order of the selected candidates\<close>

text \<open>
  C1, as stated: the returned candidates are sorted by the key, and reversing the input
  items yields the identical output. The sort is stable and the key holds no identifier:
  two scenes with the same cloud cover and the same timestamp keep the order in which the
  catalog yields them, so the reversed response gives the reversed pair.
\<close>

theorem pick_topk_reversal_counterexample:
  "pick_topk_items (\<lambda>q. rev [scene ''A'' 5 1, scene ''B'' 5 1]) 0 example_cfg 3
   \<noteq> pick_topk_items (\<lambda>q. [scene ''A'' 5 1, scene ''B'' 5 1]) 0 example_cfg 3"
  by (simp add: eval_pick)

text \<open>
  C1, amended: the candidates of an \<^verbatim>\<open>ok\<close> result are sorted by the key (cloud cover
  ascending, then distance to the target in hours, then timestamp), an absent or
  unparsable cloud cover counts as the largest value of the order, and reversing every
  response of the catalog yields the identical result whenever no two items of a response
  have the same key and no response is longer than the pool cap \<^verbatim>\<open>max_items\<close>.
\<close>

theorem pick_topk_sorted:
  "(pick_topk_items cl t cfg k = Inr (Ok_result t' su topk bundles) \<longrightarrow>
      sorted_wrt (spec_order t) topk)
   \<and> (cloud_cover it = CloudAbsent \<or> cloud_cover it = CloudUnparsable \<longrightarrow>
        (\<forall>c. c \<le> safe_get_cloud it))
   \<and> ((\<forall>q. distinct (map (score_item t) (cl q)) \<and> int (length (cl q)) \<le> max_items cfg) \<longrightarrow>
        pick_topk_items cl t cfg k = Inr r \<longrightarrow>
        pick_topk_items (\<lambda>q. rev (cl q)) t cfg k = Inr r)"
proof (intro conjI impI)
  assume "pick_topk_items cl t cfg k = Inr (Ok_result t' su topk bundles)"
  then show "sorted_wrt (spec_order t) topk"
    unfolding pick_topk_items_def by (intro sorted_spec_order) (rule tiers_sorted)
next
  assume "cloud_cover it = CloudAbsent \<or> cloud_cover it = CloudUnparsable"
  then show "\<forall>c. c \<le> safe_get_cloud it"
    by (auto simp: safe_get_cloud_def cloud_inf_top)
next
  assume "\<forall>q. distinct (map (score_item t) (cl q)) \<and> int (length (cl q)) \<le> max_items cfg"
    and "pick_topk_items cl t cfg k = Inr r"
  then show "pick_topk_items (\<lambda>q. rev (cl q)) t cfg k = Inr r"
    unfolding pick_topk_items_def by (rule tiers_rev)
qed

theorem pick_topk_sorted_witness:
  "pick_topk_items (\<lambda>q. [scene ''A'' 5 1, scene ''B'' 50 100, scene ''C'' 15 2]) 0 example_cfg 2
     = Inr (Ok_result 0 \<lparr>su_datetime = (-3, 3), su_cloud_lt = 20, su_window_days = 3\<rparr>
         [summary (scene ''A'' 5 1), summary (scene ''C'' 15 2)]
         [rgb_assets (scene ''A'' 5 1), rgb_assets (scene ''C'' 15 2)])
   \<and> cloud_cover ((scene ''D'' 0 0)\<lparr>cloud_cover := CloudAbsent\<rparr>) = CloudAbsent
   \<and> (\<forall>q::query. distinct (map (score_item 0) [scene ''A'' 5 1, scene ''B'' 50 100, scene ''C'' 15 2])
         \<and> int (length [scene ''A'' 5 1, scene ''B'' 50 100, scene ''C'' 15 2]) \<le> max_items example_cfg)
   \<and> sorted_wrt (spec_order 0) [summary (scene ''A'' 5 1), summary (scene ''C'' 15 2)]
   \<and> (\<forall>c. c \<le> safe_get_cloud ((scene ''D'' 0 0)\<lparr>cloud_cover := CloudAbsent\<rparr>))
   \<and> pick_topk_items (\<lambda>q. rev [scene ''A'' 5 1, scene ''B'' 50 100, scene ''C'' 15 2]) 0 example_cfg 2
     = Inr (Ok_result 0 \<lparr>su_datetime = (-3, 3), su_cloud_lt = 20, su_window_days = 3\<rparr>
         [summary (scene ''A'' 5 1), summary (scene ''C'' 15 2)]
         [rgb_assets (scene ''A'' 5 1), rgb_assets (scene ''C'' 15 2)])"
proof -
  let ?cl = "\<lambda>q::query. [scene ''A'' 5 1, scene ''B'' 50 100, scene ''C'' 15 2]"
  let ?su = "\<lparr>su_datetime = (-3, 3), su_cloud_lt = 20, su_window_days = 3\<rparr>"
  let ?topk = "[summary (scene ''A'' 5 1), summary (scene ''C'' 15 2)]"
  let ?bundles = "[rgb_assets (scene ''A'' 5 1), rgb_assets (scene ''C'' 15 2)]"
  let ?d = "(scene ''D'' 0 0)\<lparr>cloud_cover := CloudAbsent\<rparr>"
  have run: "pick_topk_items ?cl 0 example_cfg 2 = Inr (Ok_result 0 ?su ?topk ?bundles)"
    by (simp add: eval_pick)
  have absent: "cloud_cover ?d = CloudAbsent"
    by (simp add: scene_def)
  have hyp: "\<forall>q::query. distinct (map (score_item 0) (?cl q))
      \<and> int (length (?cl q)) \<le> max_items example_cfg"
    by (simp add: eval_pick)
  from pick_topk_sorted [of ?cl 0 example_cfg 2 0 ?su ?topk ?bundles ?d "Ok_result 0 ?su ?topk ?bundles"]
    run absent hyp
  show ?thesis by blast
qed

subsection \<open>Escalation tiers\<close>

text \<open>
  C3, as stated: for every starting criteria both components of the tier sequence are
  non-decreasing. The last tier's ceiling is the constant 100, so a starting ceiling above
  100 is tightened by the last tier: with \<^verbatim>\<open>cloud_lt = 150\<close> the ceilings are
  150, 150, 100.
\<close>

theorem plan_cloud_not_monotone:
  "\<not> sorted (map snd (plan \<lparr>bbox = [], collection = ''sentinel-2-l2a'', window_days = 3,
       cloud_lt = 150, max_items = 200, prefer_same_orbit = False\<rparr>))"
  by (simp add: plan_def)

text \<open>
  C3, amended: the half-windows of the tier sequence are non-decreasing for every starting
  criteria, and the cloud-cover ceilings are non-decreasing exactly when the starting
  ceiling \<^verbatim>\<open>cloud_lt\<close> is at most 100.
\<close>

theorem plan_monotone:
  "sorted (map fst (plan cfg)) \<and> (sorted (map snd (plan cfg)) \<longleftrightarrow> cloud_lt cfg \<le> 100)"
  by (auto simp add: plan_def)

theorem plan_monotone_witness:
  "sorted (map fst (plan \<lparr>bbox = [], collection = ''sentinel-2-l2a'', window_days = 3,
       cloud_lt = 20, max_items = 200, prefer_same_orbit = False\<rparr>))
   \<and> sorted (map snd (plan \<lparr>bbox = [], collection = ''sentinel-2-l2a'', window_days = 3,
       cloud_lt = 20, max_items = 200, prefer_same_orbit = False\<rparr>))"
  using plan_monotone [of "\<lparr>bbox = [], collection = ''sentinel-2-l2a'', window_days = 3,
       cloud_lt = 20, max_items = 200, prefer_same_orbit = False\<rparr>"]
  by simp

subsection \<open>The parameter K\<close>

text \<open>
  C4, as stated: a call with \<^verbatim>\<open>K <= 0\<close> fails fast with an input error. The selector has
  no check of \<^verbatim>\<open>K\<close>: with \<^verbatim>\<open>K = 0\<close> and a tier that yields items it returns an
  \<^verbatim>\<open>ok\<close> result with empty lists.
\<close>

theorem pick_topk_k_zero_ok:
  "pick_topk_items (\<lambda>q. [scene ''A'' 5 1, scene ''B'' 50 100, scene ''C'' 15 2]) 0 example_cfg 0
     = Inr (Ok_result 0 \<lparr>su_datetime = (-3, 3), su_cloud_lt = 20, su_window_days = 3\<rparr> [] [])"
  by (simp add: eval_pick)

text \<open>
  C4, amended: the selector does not validate \<^verbatim>\<open>K\<close>. Whether a call raises does not depend
  on \<^verbatim>\<open>K\<close>, so a call with \<^verbatim>\<open>K <= 0\<close> returns a normal result wherever a call with a
  positive \<^verbatim>\<open>K\<close> does, and with \<^verbatim>\<open>K = 0\<close> an \<^verbatim>\<open>ok\<close> result carries an empty
  candidate list and an empty asset-bundle list.
\<close>

theorem pick_topk_no_k_check:
  "(pick_topk_items cl t cfg k = Inl e \<longleftrightarrow> pick_topk_items cl t cfg k' = Inl e)
   \<and> (pick_topk_items cl t cfg 0 = Inr (Ok_result t' su topk bundles) \<longrightarrow> topk = [] \<and> bundles = [])"
  unfolding pick_topk_items_def
  using tiers_Inl_k [of cl cfg t k None "plan cfg" e k'] tiers_zero [of cl cfg t None "plan cfg" t' su topk bundles]
  by blast

theorem pick_topk_no_k_check_witness:
  "pick_topk_items (\<lambda>q. [scene ''A'' 5 1]) 0 example_cfg 0
     = Inr (Ok_result 0 \<lparr>su_datetime = (-3, 3), su_cloud_lt = 20, su_window_days = 3\<rparr> [] [])
   \<and> (pick_topk_items (\<lambda>q. [scene ''A'' 5 1]) 0 example_cfg (- 1) = Inl KeyError
        \<longleftrightarrow> pick_topk_items (\<lambda>q. [scene ''A'' 5 1]) 0 example_cfg 3 = Inl KeyError)"
  using pick_topk_no_k_check [of "\<lambda>q. [scene ''A'' 5 1]" 0 example_cfg "- 1" KeyError 3 0
      "\<lparr>su_datetime = (-3, 3), su_cloud_lt = 20, su_window_days = 3\<rparr>" "[]" "[]"]
  by (simp add: eval_pick)

subsection \<open>No tier yields a candidate\<close>

text \<open>
  C5, as stated: when every tier yields nothing the selector returns \<^verbatim>\<open>no_items\<close> and
  never raises. Each tier computes its date range before it searches, and a range that
  leaves the years 1 to 9999 raises \<^verbatim>\<open>OverflowError\<close>: with the target 0001-01-04, the
  default window of 3 days and a catalog that yields nothing, the first tier searches and
  the second, 5 days wide, raises.
\<close>

theorem pick_topk_overflow_on_early_target:
  "pick_topk_items (\<lambda>q. []) (- 719159 * day_us) example_cfg 3 = Inl OverflowError"
  by (simp add: eval_pick)

text \<open>
  C5, amended: if the date range of every tier of the plan lies within the years 1 to
  9999 and the search of every tier yields no item, the selector returns a \<^verbatim>\<open>no_items\<close>
  result whose reason is the one of the last tier, and does not raise.
\<close>

theorem pick_topk_no_items:
  assumes "\<forall>tier\<in>set (plan cfg). \<exists>rng. datetime_range t (fst tier) = Inr rng
       \<and> cl (search_query cfg rng (snd tier)) = []"
  shows "pick_topk_items cl t cfg k =
           Inr (No_items t (No_items_in (fst (last (plan cfg))) (snd (last (plan cfg)))))"
  unfolding pick_topk_items_def
  using tiers_all_empty [OF assms, of k None] by (simp add: plan_def)

theorem pick_topk_no_items_witness:
  "datetime_range 0 3 = Inr (- 3, 3) \<and> datetime_range 0 5 = Inr (- 5, 5)
   \<and> datetime_range 0 10 = Inr (- 10, 10)
   \<and> pick_topk_items (\<lambda>q. []) 0 example_cfg 3 = Inr (No_items 0 (No_items_in 10 100))"
  using pick_topk_no_items [of example_cfg 0 "\<lambda>q. []" 3]
  by (simp add: eval_pick)

subsection \<open>Alignment of the two lists of a manifest entry\<close>

lemma selector_lists_aligned:
  assumes "pick_topk_items cl t cfg k = Inr (Ok_result t' su topk bundles)"
  shows "map bundle_id bundles = map (\<lambda>c. Some (item_id c)) topk"
  using assms unfolding pick_topk_items_def by (rule tiers_aligned)

lemma downloader_prefers_bundle_id:
  "bundle_id entry = Some e \<Longrightarrow> e \<noteq> [] \<Longrightarrow> e \<noteq> item_id cand \<Longrightarrow>
   entry_item_id cand entry = (True, e)"
  by (simp add: entry_item_id_def)

text \<open>
  C6: the two lists of an \<^verbatim>\<open>ok\<close> entry are aligned as the selector writes them, and a
  consumer that meets different identifiers at one position reports the mismatch and
  builds its paths from the bundle's identifier. The downloader does so; the index stage
  does not. For a candidate with identifier A whose bundle carries the identifier B, the
  downloader reports the mismatch and stores every file under B, while
  \<^verbatim>\<open>s2_make_indices.py\<close> compares nothing, builds its paths from A and raises
  \<^verbatim>\<open>FileNotFoundError\<close> on the disk the downloader left; with the bundle's identifier
  it would have found the files.
\<close>

theorem index_stage_ignores_bundle_id:
  "entry_item_id (summary (scene ''A'' 5 1)) (example_entry\<lparr>bundle_id := Some ''B''\<rparr>) = (True, ''B'')
   \<and> entry_dests ''dl'' ''S'' (summary (scene ''A'' 5 1)) (example_entry\<lparr>bundle_id := Some ''B''\<rparr>)
       = [''dl/S/B/B_B02_10m.jp2'', ''dl/S/B/B_B03_10m.jp2'', ''dl/S/B/B_B04_10m.jp2'',
          ''dl/S/B/B_B08_10m.jp2'', ''dl/S/B/B_B11_20m.jp2'', ''dl/S/B/B_SCL_20m.jp2'']
   \<and> make_indices disk_under_B ''dl'' ''S'' (summary (scene ''A'' 5 1))
         (example_entry\<lparr>bundle_id := Some ''B''\<rparr>) = Inl FileNotFoundError
   \<and> make_indices disk_under_B ''dl'' ''S'' ((summary (scene ''A'' 5 1))\<lparr>item_id := ''B''\<rparr>)
         (example_entry\<lparr>bundle_id := Some ''B''\<rparr>)
       = Inr (Saved [Val (1 / 2), NaN] [Val (- 1 / 5), NaN] None)"
  by (simp add: entry_item_id_def entry_dests_def ref_dest_def make_indices_def dict_or_empty_def
      dict_get_def example_entry_def disk_under_B_def band_path_def as_float32_def
      safe_index_def safe_index_px_def arr_sub_def arr_add_def np_sub_def apply_scl_mask_def
      summary_def scene_def Let_def)

subsection \<open>The normalized index\<close>

lemma safe_index_Inr:
  "length num = length den \<Longrightarrow> safe_index num den = Inr (map2 safe_index_px num den)"
  by (simp add: safe_index_def)

lemma safe_index_px_cases:
  "safe_index_px n d =
     (case (n, d) of (Val a, Val b) \<Rightarrow> if b \<noteq> 0 then Val (a / b) else NaN | _ \<Rightarrow> NaN)"
  by (cases n; cases d) (auto simp: safe_index_px_def)

lemma norm_diff_Inr:
  "safe_index (arr_sub a b) (arr_add a b) = Inr (map2 safe_index_px (arr_sub a b) (arr_add a b))"
  by (simp add: safe_index_def arr_sub_def arr_add_def)

text \<open>
  C2, as stated: \<^verbatim>\<open>safe_index(a, b)\<close> is \<^verbatim>\<open>(a-b)/(a+b)\<close>, NaN where \<^verbatim>\<open>a+b == 0\<close>, and
  \<^verbatim>\<open>safe_index([8],[4])\<close> is \<^verbatim>\<open>[0.333...]\<close>. The function takes the numerator and the
  denominator, not the two bands: on \<^verbatim>\<open>[8]\<close> and \<^verbatim>\<open>[4]\<close> it returns \<^verbatim>\<open>[2.0]\<close>.
\<close>

theorem safe_index_takes_num_den:
  "safe_index [Val 8] [Val 4] = Inr [Val 2]
   \<and> safe_index [Val 8] [Val 4] \<noteq> Inr [Val ((8 - 4) / (8 + 4))]"
  by (simp add: safe_index_def safe_index_px_def)

text \<open>
  C2, amended: for arrays of one shape \<^verbatim>\<open>safe_index(num, den)\<close> raises nothing and
  returns NaN at exactly the positions where \<^verbatim>\<open>den == 0\<close> or either operand is not
  finite, and \<^verbatim>\<open>num/den\<close> at every other position. The normalized difference of two
  bands is what \<^verbatim>\<open>main\<close> computes as \<^verbatim>\<open>safe_index(a - b, a + b)\<close>: NaN at exactly the
  positions where \<^verbatim>\<open>a + b == 0\<close> or either band is not finite, and \<^verbatim>\<open>(a-b)/(a+b)\<close>
  at every other position. In particular \<^verbatim>\<open>safe_index([10],[0]) == [NaN]\<close>,
  \<^verbatim>\<open>safe_index([8],[4]) == [2.0]\<close> and \<^verbatim>\<open>safe_index([8]-[4],[8]+[4]) == [0.333...]\<close>.
\<close>

theorem safe_index_spec:
  "(length num = length den \<longrightarrow>
      (\<exists>out. safe_index num den = Inr out \<and> length out = length num
         \<and> (\<forall>i<length num.
               out ! i = (case (num ! i, den ! i) of
                            (Val x, Val y) \<Rightarrow> if y \<noteq> 0 then Val (x / y) else NaN
                          | _ \<Rightarrow> NaN))))
   \<and> (length a = length b \<longrightarrow>
      (\<exists>out. safe_index (arr_sub a b) (arr_add a b) = Inr out \<and> length out = length a
         \<and> (\<forall>i<length a.
               out ! i = (case (a ! i, b ! i) of
                            (Val u, Val v) \<Rightarrow> if u + v = 0 then NaN else Val ((u - v) / (u + v))
                          | _ \<Rightarrow> NaN))))
   \<and> safe_index [Val 10] [Val 0] = Inr [NaN]
   \<and> safe_index [Val 8] [Val 4] = Inr [Val 2]
   \<and> safe_index (arr_sub [Val 8] [Val 4]) (arr_add [Val 8] [Val 4]) = Inr [Val (1 / 3)]"
proof (intro conjI impI)
  assume len: "length num = length den"
  show "\<exists>out. safe_index num den = Inr out \<and> length out = length num
         \<and> (\<forall>i<length num.
               out ! i = (case (num ! i, den ! i) of
                            (Val x, Val y) \<Rightarrow> if y \<noteq> 0 then Val (x / y) else NaN
                          | _ \<Rightarrow> NaN))"
    using len by (simp add: safe_index_Inr safe_index_px_cases)
next
  assume len: "length a = length b"
  have px: "safe_index_px (np_sub x y) (np_add x y) =
      (case (x, y) of (Val u, Val v) \<Rightarrow> if u + v = 0 then NaN else Val ((u - v) / (u + v)) | _ \<Rightarrow> NaN)"
    for x y
    by (cases x; cases y) (auto simp: safe_index_px_def np_sub_def)
  show "\<exists>out. safe_index (arr_sub a b) (arr_add a b) = Inr out \<and> length out = length a
         \<and> (\<forall>i<length a.
               out ! i = (case (a ! i, b ! i) of
                            (Val u, Val v) \<Rightarrow> if u + v = 0 then NaN else Val ((u - v) / (u + v))
                          | _ \<Rightarrow> NaN))"
    using len by (simp add: safe_index_Inr arr_sub_def arr_add_def px)
next
  show "safe_index [Val 10] [Val 0] = Inr [NaN]"
    by (simp add: safe_index_def safe_index_px_def)
  show "safe_index [Val 8] [Val 4] = Inr [Val 2]"
    by (simp add: safe_index_def safe_index_px_def)
  show "safe_index (arr_sub [Val 8] [Val 4]) (arr_add [Val 8] [Val 4]) = Inr [Val (1 / 3)]"
    by (simp add: safe_index_def safe_index_px_def arr_sub_def arr_add_def np_sub_def)
qed

theorem safe_index_spec_witness:
  "length [Val 1, Val 3, PosInf] = length [Val 2, Val 0, Val 1]
   \<and> safe_index [Val 1, Val 3, PosInf] [Val 2, Val 0, Val 1] = Inr [Val (1 / 2), NaN, NaN]
   \<and> length [Val 5, Val 0] = length [Val 3, Val 0]
   \<and> safe_index (arr_sub [Val 5, Val 0] [Val 3, Val 0]) (arr_add [Val 5, Val 0] [Val 3, Val 0])
       = Inr [Val (1 / 4), NaN]"
  using safe_index_spec [of "[Val 1, Val 3, PosInf]" "[Val 2, Val 0, Val 1]"
      "[Val 5, Val 0]" "[Val 3, Val 0]"]
  by (simp add: safe_index_def safe_index_px_def arr_sub_def arr_add_def np_sub_def)

subsection \<open>The exclusion mask\<close>

lemma set_nan_nth:
  "length msk = length arr \<Longrightarrow> i < length arr \<Longrightarrow>
   set_nan arr msk ! i = (if msk ! i then NaN else arr ! i)"
  by (simp add: set_nan_def)

lemma set_nan_length: "length msk = length arr \<Longrightarrow> length (set_nan arr msk) = length arr"
  by (simp add: set_nan_def)

lemma isin_nth: "i < length scl \<Longrightarrow> isin scl codes ! i = (scl ! i \<in> set codes)"
  by (simp add: isin_def)

lemma set_SCL_EXCLUDE: "set SCL_EXCLUDE = {0, 1, 2, 3, 7, 8, 9, 10, 11}"
  by (simp add: SCL_EXCLUDE_def)

text \<open>
  C7: applying the mask of a classification layer of the indices' shape sets every pixel
  whose code is one of 0, 1, 2, 3, 7, 8, 9, 10, 11 to NaN in NDVI, in NDWI and in MNDWI
  when it is present, whatever the value was; a pixel with another code keeps its value
  in each of them.
\<close>

theorem scl_mask_forces_nan:
  assumes "apply_scl_mask (Some scl) ndvi ndwi mndwi = (ndvi', ndwi', mndwi')"
    and "length ndvi = length scl" and "length ndwi = length scl"
    and "\<forall>m. mndwi = Some m \<longrightarrow> length m = length scl"
    and "i < length scl"
  shows "(scl ! i \<in> {0, 1, 2, 3, 7, 8, 9, 10, 11} \<longrightarrow>
            ndvi' ! i = NaN \<and> ndwi' ! i = NaN \<and> (\<forall>m'. mndwi' = Some m' \<longrightarrow> m' ! i = NaN))
       \<and> (scl ! i \<notin> {0, 1, 2, 3, 7, 8, 9, 10, 11} \<longrightarrow>
            ndvi' ! i = ndvi ! i \<and> ndwi' ! i = ndwi ! i
            \<and> (\<forall>m m'. mndwi = Some m \<and> mndwi' = Some m' \<longrightarrow> m' ! i = m ! i))
       \<and> (mndwi' = None \<longleftrightarrow> mndwi = None)"
proof -
  let ?mask = "isin scl SCL_EXCLUDE"
  have lm: "length ?mask = length scl" by (simp add: isin_def)
  have bad: "?mask ! i = (scl ! i \<in> {0, 1, 2, 3, 7, 8, 9, 10, 11})"
    using assms(5) by (simp only: isin_nth set_SCL_EXCLUDE)
  have v: "ndvi' = set_nan ndvi ?mask" and w: "ndwi' = set_nan ndwi ?mask"
    and m: "mndwi' = map_option (\<lambda>m. set_nan m ?mask) mndwi"
    using assms(1) by (auto simp: apply_scl_mask_def Let_def split: option.splits)
  have v_i: "ndvi' ! i = (if ?mask ! i then NaN else ndvi ! i)"
    unfolding v using assms(2,5) lm by (simp add: set_nan_nth)
  have w_i: "ndwi' ! i = (if ?mask ! i then NaN else ndwi ! i)"
    unfolding w using assms(3,5) lm by (simp add: set_nan_nth)
  have m_i: "m' ! i = (if ?mask ! i then NaN else mm ! i)"
    if "mndwi = Some mm" "mndwi' = Some m'" for mm m'
  proof -
    from that m have "m' = set_nan mm ?mask" by simp
    moreover have "length mm = length scl" using assms(4) that(1) by simp
    ultimately show ?thesis using assms(5) lm by (simp add: set_nan_nth)
  qed
  have none: "mndwi' = None \<longleftrightarrow> mndwi = None"
    unfolding m by simp
  show ?thesis
  proof (intro conjI impI allI)
    assume b: "scl ! i \<in> {0, 1, 2, 3, 7, 8, 9, 10, 11}"
    show "ndvi' ! i = NaN" using v_i bad b by simp
    show "ndwi' ! i = NaN" using w_i bad b by simp
    fix m' assume m': "mndwi' = Some m'"
    then obtain mm where mm: "mndwi = Some mm" using m by (cases mndwi) auto
    show "m' ! i = NaN" using m_i [OF mm m'] bad b by simp
  next
    assume b: "scl ! i \<notin> {0, 1, 2, 3, 7, 8, 9, 10, 11}"
    show "ndvi' ! i = ndvi ! i" using v_i bad b by simp
    show "ndwi' ! i = ndwi ! i" using w_i bad b by simp
    fix mm m' assume "mndwi = Some mm \<and> mndwi' = Some m'"
    then show "m' ! i = mm ! i" using m_i [of mm m'] bad b by simp
  next
    show "mndwi' = None \<longleftrightarrow> mndwi = None" by (rule none)
  qed
qed

theorem scl_mask_forces_nan_witness:
  "apply_scl_mask (Some [4, 9, 5]) [Val 1, Val 2, Val 3] [Val 4, Val 5, Val 6] (Some [Val 7, Val 8, Val 9])
     = ([Val 1, NaN, Val 3], [Val 4, NaN, Val 6], Some [Val 7, NaN, Val 9])
   \<and> [Val 1, NaN, Val 3] ! 1 = NaN \<and> [Val 1, NaN, Val 3] ! 0 = [Val 1, Val 2, Val 3] ! 0"
proof -
  have run: "apply_scl_mask (Some [4, 9, 5]) [Val 1, Val 2, Val 3] [Val 4, Val 5, Val 6]
      (Some [Val 7, Val 8, Val 9])
     = ([Val 1, NaN, Val 3], [Val 4, NaN, Val 6], Some [Val 7, NaN, Val 9])"
    by (simp add: apply_scl_mask_def isin_def SCL_EXCLUDE_def set_nan_def)
  from scl_mask_forces_nan [OF run, of 1] scl_mask_forces_nan [OF run, of 0] run
  show ?thesis by simp
qed

subsection \<open>A classification layer that was not downloaded\<close>

lemmas eval_indices = make_indices_def dict_or_empty_def dict_get_def as_int16_def example_entry_def example_disk_def
  band_path_def as_float32_def safe_index_def safe_index_px_def arr_sub_def arr_add_def
  np_sub_def apply_scl_mask_def summary_def scene_def Let_def

text \<open>
  C10: a candidate whose manifest entry lists no SCL reference is skipped. When the entry
  lists B03, B04, B08, B11 and SCL and the files of B03, B04 and B08 exist, a missing SCL
  file raises nothing: the candidate is saved, with NDVI and NDWI exactly as
  \<^verbatim>\<open>safe_index\<close> returns them, no mask applied.
\<close>

theorem missing_scl_file_is_silent:
  "(dict_get (dict_or_empty (index_assets entry')) ''SCL'' = None \<longrightarrow>
      make_indices dsk dl_root sensor cand entry' = Inr Skipped)
   \<and> (bands entry = Some bs \<and> dict_get bs ''B03'' = Some r03 \<and> dict_get bs ''B04'' = Some r04
        \<and> index_assets entry = Some ex \<and> dict_get ex ''B08'' = Some r08 \<and> dict_get ex ''B11'' = Some r11
        \<and> dict_get ex ''SCL'' = Some rscl
        \<and> dsk (band_path dl_root sensor (item_id cand) (ref_key r03)) = Some x03
        \<and> dsk (band_path dl_root sensor (item_id cand) (ref_key r04)) = Some x04
        \<and> dsk (band_path dl_root sensor (item_id cand) (ref_key r08)) = Some x08
        \<and> dsk (band_path dl_root sensor (item_id cand) (ref_key rscl)) = None \<longrightarrow>
      (\<exists>ndvi ndwi mndwi.
          make_indices dsk dl_root sensor cand entry = Inr (Saved ndvi ndwi mndwi)
        \<and> safe_index (arr_sub (as_float32 x08) (as_float32 x04))
            (arr_add (as_float32 x08) (as_float32 x04)) = Inr ndvi
        \<and> safe_index (arr_sub (as_float32 x03) (as_float32 x08))
            (arr_add (as_float32 x03) (as_float32 x08)) = Inr ndwi))"
proof (intro conjI impI)
  assume "dict_get (dict_or_empty (index_assets entry')) ''SCL'' = None"
  then show "make_indices dsk dl_root sensor cand entry' = Inr Skipped"
    by (simp add: make_indices_def Let_def split: option.splits)
next
  assume h: "bands entry = Some bs \<and> dict_get bs ''B03'' = Some r03 \<and> dict_get bs ''B04'' = Some r04
        \<and> index_assets entry = Some ex \<and> dict_get ex ''B08'' = Some r08 \<and> dict_get ex ''B11'' = Some r11
        \<and> dict_get ex ''SCL'' = Some rscl
        \<and> dsk (band_path dl_root sensor (item_id cand) (ref_key r03)) = Some x03
        \<and> dsk (band_path dl_root sensor (item_id cand) (ref_key r04)) = Some x04
        \<and> dsk (band_path dl_root sensor (item_id cand) (ref_key r08)) = Some x08
        \<and> dsk (band_path dl_root sensor (item_id cand) (ref_key rscl)) = None"
  let ?ndvi = "map2 safe_index_px (arr_sub (as_float32 x08) (as_float32 x04))
      (arr_add (as_float32 x08) (as_float32 x04))"
  let ?ndwi = "map2 safe_index_px (arr_sub (as_float32 x03) (as_float32 x08))
      (arr_add (as_float32 x03) (as_float32 x08))"
  have "\<exists>mndwi. make_indices dsk dl_root sensor cand entry = Inr (Saved ?ndvi ?ndwi mndwi)"
    using h
    by (cases "dsk (band_path dl_root sensor (item_id cand) (ref_key r11))")
      (simp_all add: make_indices_def dict_or_empty_def Let_def norm_diff_Inr apply_scl_mask_def)
  then show "\<exists>ndvi ndwi mndwi.
          make_indices dsk dl_root sensor cand entry = Inr (Saved ndvi ndwi mndwi)
        \<and> safe_index (arr_sub (as_float32 x08) (as_float32 x04))
            (arr_add (as_float32 x08) (as_float32 x04)) = Inr ndvi
        \<and> safe_index (arr_sub (as_float32 x03) (as_float32 x08))
            (arr_add (as_float32 x03) (as_float32 x08)) = Inr ndwi"
    using norm_diff_Inr by blast
qed

theorem missing_scl_file_is_silent_witness:
  "make_indices example_disk ''dl'' ''S'' (summary (scene ''A'' 5 1))
       (example_entry\<lparr>index_assets := None\<rparr>) = Inr Skipped
   \<and> example_disk (band_path ''dl'' ''S'' ''A'' ''B03_10m'') = Some [2, 0]
   \<and> example_disk (band_path ''dl'' ''S'' ''A'' ''B04_10m'') = Some [1, 0]
   \<and> example_disk (band_path ''dl'' ''S'' ''A'' ''B08_10m'') = Some [3, 0]
   \<and> example_disk (band_path ''dl'' ''S'' ''A'' ''SCL_20m'') = None
   \<and> make_indices example_disk ''dl'' ''S'' (summary (scene ''A'' 5 1)) example_entry
     = Inr (Saved [Val (1 / 2), NaN] [Val (- 1 / 5), NaN] None)"
proof -
  let ?c = "summary (scene ''A'' 5 1)"
  let ?r = "\<lambda>k h. \<lparr>ref_key = k, ref_href = h, ref_type = None\<rparr>"
  have id: "item_id ?c = ''A''"
    by (simp add: summary_def scene_def)
  have h1: "dict_get (dict_or_empty (index_assets (example_entry\<lparr>index_assets := None\<rparr>))) ''SCL'' = None"
    by (simp add: dict_or_empty_def dict_get_def)
  have files: "example_disk (band_path ''dl'' ''S'' ''A'' ''B03_10m'') = Some [2, 0]"
    "example_disk (band_path ''dl'' ''S'' ''A'' ''B04_10m'') = Some [1, 0]"
    "example_disk (band_path ''dl'' ''S'' ''A'' ''B08_10m'') = Some [3, 0]"
    "example_disk (band_path ''dl'' ''S'' ''A'' ''SCL_20m'') = None"
    by (simp_all add: example_disk_def band_path_def)
  have h2: "bands example_entry = Some (the (bands example_entry))
      \<and> dict_get (the (bands example_entry)) ''B03'' = Some (?r ''B03_10m'' ''s3://eodata/A/B03.jp2'')
      \<and> dict_get (the (bands example_entry)) ''B04'' = Some (?r ''B04_10m'' ''s3://eodata/A/B04.jp2'')
      \<and> index_assets example_entry = Some (the (index_assets example_entry))
      \<and> dict_get (the (index_assets example_entry)) ''B08'' = Some (?r ''B08_10m'' ''s3://eodata/A/B08.jp2'')
      \<and> dict_get (the (index_assets example_entry)) ''B11'' = Some (?r ''B11_20m'' ''s3://eodata/A/B11.jp2'')
      \<and> dict_get (the (index_assets example_entry)) ''SCL'' = Some (?r ''SCL_20m'' ''s3://eodata/A/SCL.jp2'')"
    by (simp add: example_entry_def dict_get_def)
  have run: "make_indices example_disk ''dl'' ''S'' ?c example_entry
     = Inr (Saved [Val (1 / 2), NaN] [Val (- 1 / 5), NaN] None)"
    by (simp add: eval_indices)
  from missing_scl_file_is_silent [where entry' = "example_entry\<lparr>index_assets := None\<rparr>"
      and dsk = example_disk and dl_root = "''dl''" and sensor = "''S''" and cand = ?c
      and entry = example_entry and bs = "the (bands example_entry)"
      and ex = "the (index_assets example_entry)"
      and ?r03.0 = "?r ''B03_10m'' ''s3://eodata/A/B03.jp2''"
      and ?r04.0 = "?r ''B04_10m'' ''s3://eodata/A/B04.jp2''"
      and ?r08.0 = "?r ''B08_10m'' ''s3://eodata/A/B08.jp2''"
      and ?r11.0 = "?r ''B11_20m'' ''s3://eodata/A/B11.jp2''"
      and rscl = "?r ''SCL_20m'' ''s3://eodata/A/SCL.jp2''"
      and ?x03.0 = "[2, 0]" and ?x04.0 = "[1, 0]" and ?x08.0 = "[3, 0]"]
    h1 h2 files id run
  show ?thesis by simp
qed

subsection \<open>What the download stage leaves alone\<close>

lemma spares_refl: "spares w w"
  by (simp add: spares_def)

lemma spares_trans:
  assumes "spares w w1" and "spares w1 w2"
  shows "spares w w2"
proof -
  from assms(1) obtain n1 where f1: "\<forall>p. exists_nonempty w p \<longrightarrow> files w1 p = files w p"
    and c1: "calls w1 = calls w @ n1" and d1: "\<forall>c\<in>set n1. \<not> exists_nonempty w (snd (snd c))"
    by (auto simp: spares_def)
  from assms(2) obtain n2 where f2: "\<forall>p. exists_nonempty w1 p \<longrightarrow> files w2 p = files w1 p"
    and c2: "calls w2 = calls w1 @ n2" and d2: "\<forall>c\<in>set n2. \<not> exists_nonempty w1 (snd (snd c))"
    by (auto simp: spares_def)
  have keep: "exists_nonempty w p \<Longrightarrow> exists_nonempty w1 p" for p
    using f1 by (simp add: exists_nonempty_def)
  have "\<forall>p. exists_nonempty w p \<longrightarrow> files w2 p = files w p"
    using f1 f2 keep by simp
  moreover have "calls w2 = calls w @ (n1 @ n2)"
    using c1 c2 by simp
  moreover have "\<forall>c\<in>set (n1 @ n2). \<not> exists_nonempty w (snd (snd c))"
    using d1 d2 keep by auto
  ultimately show ?thesis
    unfolding spares_def by blast
qed

lemma ensure_download_spares: "spares w (snd (ensure_download urlparse s3 h out_path w))"
proof (cases "parse_s3_href urlparse h")
  case (Inl e)
  then show ?thesis by (simp add: ensure_download_def spares_refl)
next
  case (Inr bk)
  obtain b k where bk: "bk = (b, k)" by (cases bk)
  show ?thesis
  proof (cases "exists_nonempty w out_path")
    case True
    then show ?thesis by (simp add: ensure_download_def Inr bk spares_refl)
  next
    case False
    then show ?thesis
      by (cases "s3 b k")
        (auto simp: ensure_download_def Inr bk spares_def Let_def exists_nonempty_def)
  qed
qed

lemma fetch_spares: "spares w (snd (fetch urlparse s3 h out_path w))"
  by (simp add: fetch_def spares_refl ensure_download_spares)

lemma fetch_spares': "fetch urlparse s3 h out_path w = (r, w') \<Longrightarrow> spares w w'"
  using fetch_spares [of w urlparse s3 h out_path] by simp

lemma download_tci_spares: "download_tci urlparse s3 dl_root sensor iid t w = (r, w') \<Longrightarrow> spares w w'"
  by (auto simp: download_tci_def spares_refl split: option.splits if_splits dest: fetch_spares')

lemma download_bands_spares:
  "download_bands urlparse s3 dl_root sensor iid bnds ks w = (r, w') \<Longrightarrow> spares w w'"
proof (induction ks arbitrary: w)
  case Nil
  then show ?case by (simp add: spares_refl)
next
  case (Cons k ks)
  show ?case
  proof (cases "dict_get bnds k")
    case None
    with Cons.prems show ?thesis by (simp add: spares_refl)
  next
    case (Some a)
    show ?thesis
    proof (cases "ref_href a = []")
      case True
      with Cons.prems Some show ?thesis by (simp add: spares_refl)
    next
      case False
      obtain r1 w1 where f: "fetch urlparse s3 (ref_href a) (band_path dl_root sensor iid (ref_key a)) w = (r1, w1)"
        by (cases "fetch urlparse s3 (ref_href a) (band_path dl_root sensor iid (ref_key a)) w")
      have s1: "spares w w1" by (rule fetch_spares' [OF f])
      show ?thesis
      proof (cases r1)
        case None
        with Cons.prems Some False f have "download_bands urlparse s3 dl_root sensor iid bnds ks w1 = (r, w')"
          by simp
        from spares_trans [OF s1 Cons.IH [OF this]] show ?thesis .
      next
        case (Some e)
        with Cons.prems \<open>dict_get bnds k = Some a\<close> False f have "w' = w1" by simp
        with s1 show ?thesis by simp
      qed
    qed
  qed
qed

lemma download_extra_spares:
  "download_extra urlparse s3 dl_root sensor iid extra ks w = (r, w') \<Longrightarrow> spares w w'"
proof (induction ks arbitrary: w)
  case Nil
  then show ?case by (simp add: spares_refl)
next
  case (Cons k ks)
  show ?case
  proof (cases "dict_get extra k")
    case None
    with Cons show ?thesis by simp
  next
    case (Some a)
    show ?thesis
    proof (cases "ref_href a = []")
      case True
      with Cons Some show ?thesis by simp
    next
      case False
      obtain r1 w1 where f: "fetch urlparse s3 (ref_href a) (band_path dl_root sensor iid (ref_key a)) w = (r1, w1)"
        by (cases "fetch urlparse s3 (ref_href a) (band_path dl_root sensor iid (ref_key a)) w")
      have s1: "spares w w1" by (rule fetch_spares' [OF f])
      show ?thesis
      proof (cases r1)
        case None
        with Cons.prems Some False f have "download_extra urlparse s3 dl_root sensor iid extra ks w1 = (r, w')"
          by simp
        from spares_trans [OF s1 Cons.IH [OF this]] show ?thesis .
      next
        case (Some e)
        with Cons.prems \<open>dict_get extra k = Some a\<close> False f have "w' = w1" by simp
        with s1 show ?thesis by simp
      qed
    qed
  qed
qed

lemma download_candidate_spares:
  assumes "download_candidate urlparse s3 dl_root sensor cand entry w = (r, w')"
  shows "spares w w'"
proof -
  let ?iid = "snd (entry_item_id cand entry)"
  let ?b = "dict_or_empty (bands entry)"
  let ?x = "dict_or_empty (index_assets entry)"
  obtain r1 w1 where t: "download_tci urlparse s3 dl_root sensor ?iid (tci entry) w = (r1, w1)"
    by (cases "download_tci urlparse s3 dl_root sensor ?iid (tci entry) w")
  have s1: "spares w w1" by (rule download_tci_spares [OF t])
  obtain r2 w2 where b: "download_bands urlparse s3 dl_root sensor ?iid ?b [''B02'', ''B03'', ''B04''] w1 = (r2, w2)"
    by (cases "download_bands urlparse s3 dl_root sensor ?iid ?b [''B02'', ''B03'', ''B04''] w1")
  have s2: "spares w1 w2" by (rule download_bands_spares [OF b])
  obtain r3 w3 where x: "download_extra urlparse s3 dl_root sensor ?iid ?x [''B08'', ''B11'', ''SCL''] w2 = (r3, w3)"
    by (cases "download_extra urlparse s3 dl_root sensor ?iid ?x [''B08'', ''B11'', ''SCL''] w2")
  have s3: "spares w2 w3" by (rule download_extra_spares [OF x])
  obtain r4 w4 where y: "download_extra urlparse s3 dl_root sensor ?iid ?x [''B08'', ''B11'', ''SCL''] w1 = (r4, w4)"
    by (cases "download_extra urlparse s3 dl_root sensor ?iid ?x [''B08'', ''B11'', ''SCL''] w1")
  have s4: "spares w1 w4" by (rule download_extra_spares [OF y])
  have "w' = w1 \<or> w' = w2 \<or> w' = w3 \<or> w' = w4"
    using assms t b x y
    by (cases r1; cases r2; cases "?b = []"; cases "?x = []")
      (simp_all add: download_candidate_def Let_def
        del: download_bands.simps download_extra.simps)
  then show ?thesis
    using s1 s2 s3 s4 spares_trans by blast
qed

lemma download_candidates_spares:
  "download_candidates urlparse s3 dl_root sensor ps w = (r, w') \<Longrightarrow> spares w w'"
proof (induction ps arbitrary: w)
  case Nil
  then show ?case by (simp add: spares_refl)
next
  case (Cons p ps)
  obtain cand entry where p: "p = (cand, entry)" by (cases p)
  obtain r1 w1 where c: "download_candidate urlparse s3 dl_root sensor cand entry w = (r1, w1)"
    by (cases "download_candidate urlparse s3 dl_root sensor cand entry w")
  have s1: "spares w w1" by (rule download_candidate_spares [OF c])
  show ?case
  proof (cases r1)
    case None
    with Cons.prems p c have "download_candidates urlparse s3 dl_root sensor ps w1 = (r, w')" by simp
    from spares_trans [OF s1 Cons.IH [OF this]] show ?thesis .
  next
    case (Some e)
    with Cons.prems p c have "w' = w1" by simp
    with s1 show ?thesis by simp
  qed
qed

lemma download_main_spares:
  "download_main urlparse s3 dl_root ts w = (r, w') \<Longrightarrow> spares w w'"
proof (induction urlparse s3 dl_root ts w rule: download_main.induct)
  case (1 urlparse s3 dl_root w)
  then show ?case by (simp add: spares_refl)
next
  case (2 urlparse s3 dl_root sensor t rs rest w)
  then show ?case by simp
next
  case (3 urlparse s3 dl_root sensor t su candidates candidates_assets rest w)
  show ?case
  proof (cases "candidates = [] \<or> candidates_assets = []")
    case True
    with 3 show ?thesis by simp
  next
    case False
    obtain r1 w1 where c: "download_candidates urlparse s3 dl_root sensor (zip candidates candidates_assets) w = (r1, w1)"
      by (cases "download_candidates urlparse s3 dl_root sensor (zip candidates candidates_assets) w")
    have s1: "spares w w1" by (rule download_candidates_spares [OF c])
    show ?thesis
    proof (cases r1)
      case None
      with "3.prems" False c have run: "download_main urlparse s3 dl_root rest w1 = (r, w')" by simp
      have "spares w1 w'"
        using "3.IH"(2) False c None run by auto
      with s1 show ?thesis by (rule spares_trans)
    next
      case (Some e)
      with "3.prems" False c have "w' = w1" by simp
      with s1 show ?thesis by simp
    qed
  qed
qed

lemma ensure_download_existing:
  "exists_nonempty w out_path \<Longrightarrow>
   ensure_download urlparse s3 h out_path w =
     (if scheme (urlparse h) = ''s3'' then None else Some ValueError, w)"
  by (simp add: ensure_download_def parse_s3_href_def Let_def)

lemma fetch_existing: "exists_nonempty w out_path \<Longrightarrow> fetch urlparse s3 h out_path w = (None, w)"
  by (simp add: fetch_def)

lemma download_tci_dest:
  "\<forall>p\<in>set (ref_dest dl_root sensor iid t). exists_nonempty w p \<Longrightarrow>
   download_tci urlparse s3 dl_root sensor iid t w = (None, w)"
  by (auto simp: download_tci_def ref_dest_def fetch_existing split: option.splits)

lemma download_bands_dest:
  "\<forall>k\<in>set ks. \<forall>p\<in>set (ref_dest dl_root sensor iid (dict_get bnds k)). exists_nonempty w p \<Longrightarrow>
   snd (download_bands urlparse s3 dl_root sensor iid bnds ks w) = w"
  by (induction ks) (auto simp: ref_dest_def fetch_existing split: option.splits)

lemma download_extra_dest:
  "\<forall>k\<in>set ks. \<forall>p\<in>set (ref_dest dl_root sensor iid (dict_get extra k)). exists_nonempty w p \<Longrightarrow>
   download_extra urlparse s3 dl_root sensor iid extra ks w = (None, w)"
  by (induction ks) (auto simp: ref_dest_def fetch_existing split: option.splits)

lemma download_candidate_dest:
  assumes "\<forall>p\<in>set (entry_dests dl_root sensor cand entry). exists_nonempty w p"
  shows "snd (download_candidate urlparse s3 dl_root sensor cand entry w) = w"
proof -
  let ?iid = "snd (entry_item_id cand entry)"
  let ?b = "dict_or_empty (bands entry)"
  let ?x = "dict_or_empty (index_assets entry)"
  have t: "download_tci urlparse s3 dl_root sensor ?iid (tci entry) w = (None, w)"
    using assms by (intro download_tci_dest) (simp add: entry_dests_def Let_def)
  have "snd (download_bands urlparse s3 dl_root sensor ?iid ?b [''B02'', ''B03'', ''B04''] w) = w"
    using assms by (intro download_bands_dest) (simp add: entry_dests_def Let_def)
  then obtain r2 where b: "download_bands urlparse s3 dl_root sensor ?iid ?b [''B02'', ''B03'', ''B04''] w = (r2, w)"
    by (cases "download_bands urlparse s3 dl_root sensor ?iid ?b [''B02'', ''B03'', ''B04''] w") simp
  have x: "download_extra urlparse s3 dl_root sensor ?iid ?x [''B08'', ''B11'', ''SCL''] w = (None, w)"
    using assms by (intro download_extra_dest) (simp add: entry_dests_def Let_def)
  show ?thesis
    using t b x
    by (cases r2; cases "?b = []"; cases "?x = []")
      (simp_all add: download_candidate_def Let_def
        del: download_bands.simps download_extra.simps)
qed

lemma download_candidates_dest:
  "\<forall>p\<in>set (concat (map (\<lambda>(cand, entry). entry_dests dl_root sensor cand entry) ps)).
      exists_nonempty w p \<Longrightarrow>
   snd (download_candidates urlparse s3 dl_root sensor ps w) = w"
proof (induction ps)
  case Nil
  show ?case by simp
next
  case (Cons p ps)
  obtain cand entry where p: "p = (cand, entry)" by (cases p)
  have "snd (download_candidate urlparse s3 dl_root sensor cand entry w) = w"
    using Cons.prems by (intro download_candidate_dest) (simp add: p)
  then obtain r1 where c: "download_candidate urlparse s3 dl_root sensor cand entry w = (r1, w)"
    by (cases "download_candidate urlparse s3 dl_root sensor cand entry w") simp
  have "snd (download_candidates urlparse s3 dl_root sensor ps w) = w"
    using Cons by simp
  with c show ?case
    by (cases r1) (simp_all add: p)
qed

lemma download_main_dest:
  "\<forall>p\<in>set (manifest_dests dl_root ts). exists_nonempty w p \<Longrightarrow>
   snd (download_main urlparse s3 dl_root ts w) = w"
proof (induction ts)
  case Nil
  show ?case by simp
next
  case (Cons t ts)
  obtain sensor res where t: "t = (sensor, res)" by (cases t)
  have rest: "snd (download_main urlparse s3 dl_root ts w) = w"
    using Cons by (simp add: manifest_dests_def)
  show ?case
  proof (cases res)
    case (No_items t0 r0)
    with rest show ?thesis by (simp add: t)
  next
    case (Ok_result t0 su cs bs)
    have "snd (download_candidates urlparse s3 dl_root sensor (zip cs bs) w) = w"
      using Cons.prems by (intro download_candidates_dest) (simp add: manifest_dests_def t Ok_result)
    then obtain r1 where c: "download_candidates urlparse s3 dl_root sensor (zip cs bs) w = (r1, w)"
      by (cases "download_candidates urlparse s3 dl_root sensor (zip cs bs) w") simp
    with rest show ?thesis
      by (cases r1) (simp_all add: t Ok_result)
  qed
qed

lemmas eval_download = download_candidate_def dict_or_empty_def dict_get_def entry_item_id_def download_tci_def fetch_def
  ensure_download_def parse_s3_href_def exists_nonempty_def band_path_def example_entry_def
  summary_def scene_def example_urlparse_def partial_world_def Let_def

text \<open>
  C9, as stated: wherever a non-empty file exists at the destination,
  \<^verbatim>\<open>ensure_download\<close> returns. The reference is parsed before the file is looked at:
  with a reference that is not \<^verbatim>\<open>s3://\<close> the call raises \<^verbatim>\<open>ValueError\<close>, file or no
  file.
\<close>

theorem ensure_download_raises_on_other_scheme:
  "ensure_download example_urlparse (\<lambda>b k. Inr ''data'') ''https://host/A/B02.jp2''
     ''dl/S/A/A_B02_10m.jp2'' partial_world
   = (Some ValueError, partial_world)"
  by (simp add: ensure_download_def parse_s3_href_def example_urlparse_def)

text \<open>
  C9, amended: for every \<^verbatim>\<open>s3://\<close> reference and every destination at which a
  non-empty file exists, \<^verbatim>\<open>ensure_download\<close> returns with no network call and no file
  changed; for any other reference it raises \<^verbatim>\<open>ValueError\<close>, also with no network call
  and no file changed. A run of the download stage changes no file that existed non-empty
  before it and calls the network only for destinations that held no non-empty file;
  consequently a run against a tree that holds a non-empty file at the destination of
  every asset the manifest names performs no network call and changes no file.
\<close>

theorem download_idempotent:
  "(exists_nonempty w out_path \<longrightarrow>
      ensure_download urlparse s3 h out_path w =
        (if scheme (urlparse h) = ''s3'' then None else Some ValueError, w))
   \<and> (download_main urlparse s3 dl_root targets w = (r, w') \<longrightarrow> spares w w')
   \<and> ((\<forall>p\<in>set (manifest_dests dl_root targets). exists_nonempty w0 p) \<longrightarrow>
        snd (download_main urlparse s3 dl_root targets w0) = w0)"
  using ensure_download_existing download_main_spares download_main_dest by blast

theorem download_idempotent_witness:
  "exists_nonempty partial_world ''dl/S/A/A_B02_10m.jp2''
   \<and> ensure_download example_urlparse (\<lambda>b k. Inr ''data'') ''s3://eodata/A/B02.jp2'' ''dl/S/A/A_B02_10m.jp2''
       partial_world = (None, partial_world)
   \<and> download_main example_urlparse (\<lambda>b k. Inr ''data'') ''dl''
         [(''S'', Ok_result 0 \<lparr>su_datetime = (-3, 3), su_cloud_lt = 20, su_window_days = 3\<rparr>
            [summary (scene ''A'' 5 1)] [example_entry])] partial_world
       = (None, partial_world\<lparr>files := (files partial_world)(''dl/S/A/A_SCL_20m.jp2'' \<mapsto> ''data''),
                  calls := [(''eodata'', ''A/SCL.jp2'', ''dl/S/A/A_SCL_20m.jp2'')]\<rparr>)
   \<and> spares partial_world
        (partial_world\<lparr>files := (files partial_world)(''dl/S/A/A_SCL_20m.jp2'' \<mapsto> ''data''),
                  calls := [(''eodata'', ''A/SCL.jp2'', ''dl/S/A/A_SCL_20m.jp2'')]\<rparr>)
   \<and> manifest_dests ''dl''
         [(''S'', Ok_result 0 \<lparr>su_datetime = (-3, 3), su_cloud_lt = 20, su_window_days = 3\<rparr>
            [summary (scene ''A'' 5 1)] [example_entry])]
       = [''dl/S/A/A_B02_10m.jp2'', ''dl/S/A/A_B03_10m.jp2'', ''dl/S/A/A_B04_10m.jp2'',
          ''dl/S/A/A_B08_10m.jp2'', ''dl/S/A/A_B11_20m.jp2'', ''dl/S/A/A_SCL_20m.jp2'']
   \<and> snd (download_main example_urlparse (\<lambda>b k. Inr ''data'') ''dl''
         [(''S'', Ok_result 0 \<lparr>su_datetime = (-3, 3), su_cloud_lt = 20, su_window_days = 3\<rparr>
            [summary (scene ''A'' 5 1)] [example_entry])]
         (partial_world\<lparr>files := (files partial_world)(''dl/S/A/A_SCL_20m.jp2'' \<mapsto> ''scl'')\<rparr>))
       = partial_world\<lparr>files := (files partial_world)(''dl/S/A/A_SCL_20m.jp2'' \<mapsto> ''scl'')\<rparr>"
proof -
  let ?s3 = "\<lambda>b k. Inr ''data'' :: py_error + string"
  let ?ts = "[(''S'', Ok_result 0 \<lparr>su_datetime = (-3, 3), su_cloud_lt = 20, su_window_days = 3\<rparr>
            [summary (scene ''A'' 5 1)] [example_entry])]"
  let ?w' = "partial_world\<lparr>files := (files partial_world)(''dl/S/A/A_SCL_20m.jp2'' \<mapsto> ''data''),
                  calls := [(''eodata'', ''A/SCL.jp2'', ''dl/S/A/A_SCL_20m.jp2'')]\<rparr>"
  let ?full = "partial_world\<lparr>files := (files partial_world)(''dl/S/A/A_SCL_20m.jp2'' \<mapsto> ''scl'')\<rparr>"
  have e: "exists_nonempty partial_world ''dl/S/A/A_B02_10m.jp2''"
    by (simp add: exists_nonempty_def partial_world_def)
  have sch: "scheme (example_urlparse ''s3://eodata/A/B02.jp2'') = ''s3''"
    by (simp add: example_urlparse_def)
  have run: "download_main example_urlparse ?s3 ''dl'' ?ts partial_world = (None, ?w')"
    by (simp add: eval_download)
  have dests: "manifest_dests ''dl'' ?ts
       = [''dl/S/A/A_B02_10m.jp2'', ''dl/S/A/A_B03_10m.jp2'', ''dl/S/A/A_B04_10m.jp2'',
          ''dl/S/A/A_B08_10m.jp2'', ''dl/S/A/A_B11_20m.jp2'', ''dl/S/A/A_SCL_20m.jp2'']"
    by (simp add: manifest_dests_def entry_dests_def ref_dest_def eval_download)
  have full: "\<forall>p\<in>set (manifest_dests ''dl'' ?ts). exists_nonempty ?full p"
    unfolding dests by (simp add: exists_nonempty_def partial_world_def)
  from download_idempotent [where w = partial_world and out_path = "''dl/S/A/A_B02_10m.jp2''"
      and urlparse = example_urlparse and ?s3.0 = ?s3 and h = "''s3://eodata/A/B02.jp2''"
      and dl_root = "''dl''" and targets = ?ts and r = None and w' = ?w' and ?w0.0 = ?full]
    e sch run full dests
  show ?thesis by simp
qed

subsection \<open>The range of the percentile stretch\<close>

lemmas minmax_iffs = Min_ge_iff Min_gr_iff Max_le_iff Max_less_iff

lemma channel_range_png_lt: "channel_range_png chan = (lo, hi) \<Longrightarrow> lo < hi"
  by (auto simp: channel_range_png_def Let_def simp del: minmax_iffs split: prod.splits if_splits)

lemma channel_range_top3_lt: "channel_range_top3 chan = Inr (lo, hi) \<Longrightarrow> lo < hi"
  by (auto simp: channel_range_top3_def Let_def simp del: minmax_iffs split: prod.splits if_splits)

lemma channel_range_png_fallback:
  assumes "percentiles_png chan = (lo, hi)" and "hi \<le> lo" and "positive chan \<noteq> []"
  shows "channel_range_png chan =
     (Min (set (positive chan)),
      if Min (set (positive chan)) < Max (set (positive chan)) then Max (set (positive chan))
      else Min (set (positive chan)) + 1)"
  using assms by (auto simp: channel_range_png_def Let_def simp del: minmax_iffs)

lemma channel_range_top3_fallback:
  assumes "percentiles_top3 chan = (lo, hi)" and "hi \<le> lo" and "channel_range_top3 chan = Inr rg"
  shows "rg =
     (Min (set (positive chan)),
      if Min (set (positive chan)) < Max (set (positive chan)) then Max (set (positive chan))
      else Min (set (positive chan)) + 1)"
  using assms by (auto simp: channel_range_top3_def Let_def simp del: minmax_iffs split: if_splits)

lemma percentile_stretch_cases:
  assumes "x \<noteq> []" and "0 \<le> pl" and "pl \<le> 100" and "0 \<le> ph" and "ph \<le> 100"
  shows "percentile_stretch x pl ph =
     Inr (if percentile x pl < percentile x ph then linear_map (percentile x pl) (percentile x ph) x
          else if Min (set x) < Max (set x) then linear_map (Min (set x)) (Max (set x)) x
          else replicate (length x) 0)"
  using assms by (auto simp: percentile_stretch_def np_percentile_def Let_def simp del: minmax_iffs)

lemma sort_fives: "sort (replicate 50 5 @ [1000::real]) = replicate 50 5 @ [1000]"
  by (rule sorted_sort_id) (simp add: sorted_append)

lemma positive_fives: "positive (replicate 50 5 @ [1000]) = replicate 50 5 @ [1000]"
  by (simp add: positive_def)

lemma percentiles_fives: "percentiles_png (replicate 50 5 @ [1000]) = (5, 5)"
  by (simp add: percentiles_png_def positive_fives percentile_def sort_fives Let_def nth_append)

lemmas eval_stretch = percentiles_png_def percentiles_top3_def channel_range_png_def
  channel_range_top3_def percentile_stretch_def np_percentile_def percentile_def positive_def linear_map_def
  stretch_channel_png_def stretch_channel_top3_def Let_def

text \<open>
  C8, as stated: whenever the high percentile does not exceed the low one the range is
  widened to \<^verbatim>\<open>[min, min+1]\<close>. The fallback first takes the minimum and the maximum of
  the positive samples and adds 1 only when these coincide: a channel of fifty pixels of
  value 5 and one of value 1000 has both percentiles at 5 and is mapped with the range
  \<^verbatim>\<open>[5, 1000]\<close>.
\<close>

theorem degenerate_range_is_min_max:
  "percentiles_png (replicate 50 5 @ [1000]) = (5, 5)
   \<and> channel_range_png (replicate 50 5 @ [1000]) = (5, 1000)"
  by (simp add: percentiles_fives channel_range_png_def positive_fives Let_def)

text \<open>
  C8, amended: in \<^verbatim>\<open>normalize_rgb_uint8\<close>, whenever the high percentile of a channel does
  not exceed the low one, the range becomes the minimum and the maximum of the channel's
  positive samples, and \<^verbatim>\<open>[min, min+1]\<close> when these coincide (in
  \<^verbatim>\<open>s2_make_compare_png.py\<close>, \<^verbatim>\<open>[0, 1]\<close> when the channel has no positive sample). In
  both implementations every range handed to the linear mapping has its upper end above
  its lower end, so the mapping never divides by zero, and in \<^verbatim>\<open>s2_make_compare_png.py\<close>
  every channel gets such a range. \<^verbatim>\<open>percentile_stretch\<close> of \<^verbatim>\<open>s2_make_rgb.py\<close>, on a
  non-empty channel and percentiles between 0 and 100, falls back to the minimum and the
  maximum and, when these coincide, returns the all-zero channel without dividing.
\<close>

theorem stretch_range_never_degenerate:
  "(\<exists>lo hi. channel_range_png chan = (lo, hi) \<and> lo < hi
       \<and> stretch_channel_png chan = linear_map lo hi chan)
   \<and> (percentiles_png chan = (p2, p98) \<and> p98 \<le> p2 \<and> positive chan \<noteq> [] \<longrightarrow>
        channel_range_png chan =
          (Min (set (positive chan)),
           if Min (set (positive chan)) < Max (set (positive chan)) then Max (set (positive chan))
           else Min (set (positive chan)) + 1))
   \<and> (percentiles_png chan0 = (r2, r98) \<and> r98 \<le> r2 \<and> positive chan0 = [] \<longrightarrow>
        channel_range_png chan0 = (0, 1))
   \<and> (channel_range_top3 chan3 = Inr (lo3, hi3) \<longrightarrow>
        lo3 < hi3 \<and> stretch_channel_top3 chan3 = Inr (linear_map lo3 hi3 chan3))
   \<and> (percentiles_top3 chan3 = (q2, q98) \<and> q98 \<le> q2 \<and> channel_range_top3 chan3 = Inr rg \<longrightarrow>
        rg = (Min (set (positive chan3)),
              if Min (set (positive chan3)) < Max (set (positive chan3)) then Max (set (positive chan3))
              else Min (set (positive chan3)) + 1))
   \<and> (x \<noteq> [] \<and> 0 \<le> pl \<and> pl \<le> 100 \<and> 0 \<le> ph \<and> ph \<le> 100 \<longrightarrow>
        percentile_stretch x pl ph =
          Inr (if percentile x pl < percentile x ph
               then linear_map (percentile x pl) (percentile x ph) x
               else if Min (set x) < Max (set x) then linear_map (Min (set x)) (Max (set x)) x
               else replicate (length x) 0))"
proof (intro conjI impI)
  obtain lo hi where r: "channel_range_png chan = (lo, hi)"
    by (cases "channel_range_png chan")
  then show "\<exists>lo hi. channel_range_png chan = (lo, hi) \<and> lo < hi
       \<and> stretch_channel_png chan = linear_map lo hi chan"
    using channel_range_png_lt [OF r] by (simp add: stretch_channel_png_def)
next
  assume "percentiles_png chan = (p2, p98) \<and> p98 \<le> p2 \<and> positive chan \<noteq> []"
  then show "channel_range_png chan =
          (Min (set (positive chan)),
           if Min (set (positive chan)) < Max (set (positive chan)) then Max (set (positive chan))
           else Min (set (positive chan)) + 1)"
    using channel_range_png_fallback [of chan p2 p98] by blast
next
  assume "percentiles_png chan0 = (r2, r98) \<and> r98 \<le> r2 \<and> positive chan0 = []"
  then show "channel_range_png chan0 = (0, 1)"
    by (simp add: channel_range_png_def)
next
  assume r: "channel_range_top3 chan3 = Inr (lo3, hi3)"
  show "lo3 < hi3" by (rule channel_range_top3_lt [OF r])
  show "stretch_channel_top3 chan3 = Inr (linear_map lo3 hi3 chan3)"
    using r by (simp add: stretch_channel_top3_def)
next
  assume "percentiles_top3 chan3 = (q2, q98) \<and> q98 \<le> q2 \<and> channel_range_top3 chan3 = Inr rg"
  then show "rg = (Min (set (positive chan3)),
              if Min (set (positive chan3)) < Max (set (positive chan3)) then Max (set (positive chan3))
              else Min (set (positive chan3)) + 1)"
    using channel_range_top3_fallback [of chan3 q2 q98 rg] by blast
next
  assume "x \<noteq> [] \<and> 0 \<le> pl \<and> pl \<le> 100 \<and> 0 \<le> ph \<and> ph \<le> 100"
  then show "percentile_stretch x pl ph =
          Inr (if percentile x pl < percentile x ph
               then linear_map (percentile x pl) (percentile x ph) x
               else if Min (set x) < Max (set x) then linear_map (Min (set x)) (Max (set x)) x
               else replicate (length x) 0)"
    by (simp add: percentile_stretch_cases)
qed

theorem stretch_range_never_degenerate_witness:
  "percentiles_png [7, 7, 7] = (7, 7) \<and> positive [7, 7, 7] \<noteq> []
   \<and> channel_range_png [7, 7, 7] = (7, 8)
   \<and> percentiles_png [0, 0] = (0, 0) \<and> positive [0, 0] = []
   \<and> channel_range_png [0, 0] = (0, 1)
   \<and> percentiles_top3 [7, 7, 7] = (7, 7)
   \<and> channel_range_top3 [7, 7, 7] = Inr (7, 8)
   \<and> stretch_channel_top3 [7, 7, 7] = Inr [0, 0, 0]
   \<and> percentile_stretch [7, 7, 7] 2 98 = Inr [0, 0, 0]"
proof -
  have h1: "percentiles_png [7, 7, 7] = (7, 7)" "positive [7, 7, 7] \<noteq> []"
    "percentiles_png [0, 0] = (0, 0)" "positive [0, 0] = []"
    "percentiles_top3 [7, 7, 7] = (7, 7)" "channel_range_top3 [7, 7, 7] = Inr (7, 8)"
    by (simp_all add: eval_stretch)
  have ne: "[7, 7, 7] \<noteq> ([] :: real list)" by simp
  from stretch_range_never_degenerate [where chan = "[7, 7, 7]" and ?p2.0 = 7 and ?p98.0 = 7
      and ?chan0.0 = "[0, 0]" and ?r2.0 = 0 and ?r98.0 = 0 and ?chan3.0 = "[7, 7, 7]"
      and ?lo3.0 = 7 and ?hi3.0 = 8 and rg = "(7, 8)"
      and ?q2.0 = 7 and ?q98.0 = 7 and x = "[7, 7, 7]" and pl = 2 and ph = 98] h1 ne
  show ?thesis by (simp add: eval_stretch)
qed

end
